theory Spec2Isabelle
  imports Complex_Main "HOL-Library.Multiset"
begin

section \<open>JavaScript strings\<close>

text \<open>
  A JavaScript string is a sequence of UTF-16 code units. A code unit is modelled by its
  number, a string by the list of its code units; \<open>js\<close> embeds an ASCII literal of
  the source.
\<close>

type_synonym jschar = nat
type_synonym jsstring = "nat list"

definition js :: "string \<Rightarrow> jsstring" where
  "js s = map of_char s"

text \<open>
  \<^verbatim>\<open>String.prototype.toLowerCase\<close>, for the code units of Basic Latin and
  Latin-1 Supplement, and for the three code units outside these blocks whose lower case
  lies inside them (U+0130, U+212A, U+212B). Every other code unit is left as it is: the
  rest of the Unicode case table is not part of this model.
\<close>

definition lower_unit :: "jschar \<Rightarrow> jsstring" where
  "lower_unit c =
     (if 65 \<le> c \<and> c \<le> 90 then [c + 32]
      else if 192 \<le> c \<and> c \<le> 222 \<and> c \<noteq> 215 then [c + 32]
      else if c = 304 then [105, 775]
      else if c = 8490 then [107]
      else if c = 8491 then [229]
      else [c])"

definition toLowerCase :: "jsstring \<Rightarrow> jsstring" where
  "toLowerCase s = concat (map lower_unit s)"

text \<open>
  \<^verbatim>\<open>String.prototype.normalize("NFD")\<close>: the canonical decompositions of the
  letters of Latin-1 Supplement (base letter, combining mark). Code units with no entry
  are left as they are.
\<close>

definition latin1_decomposition :: "(jschar \<times> jschar \<times> jschar) list" where
  "latin1_decomposition =
    [(192, 65, 768), (193, 65, 769), (194, 65, 770), (195, 65, 771), (196, 65, 776),
     (197, 65, 778), (199, 67, 807), (200, 69, 768), (201, 69, 769), (202, 69, 770),
     (203, 69, 776), (204, 73, 768), (205, 73, 769), (206, 73, 770), (207, 73, 776),
     (209, 78, 771), (210, 79, 768), (211, 79, 769), (212, 79, 770), (213, 79, 771),
     (214, 79, 776), (217, 85, 768), (218, 85, 769), (219, 85, 770), (220, 85, 776),
     (221, 89, 769),
     (224, 97, 768), (225, 97, 769), (226, 97, 770), (227, 97, 771), (228, 97, 776),
     (229, 97, 778), (231, 99, 807), (232, 101, 768), (233, 101, 769), (234, 101, 770),
     (235, 101, 776), (236, 105, 768), (237, 105, 769), (238, 105, 770), (239, 105, 776),
     (241, 110, 771), (242, 111, 768), (243, 111, 769), (244, 111, 770), (245, 111, 771),
     (246, 111, 776), (249, 117, 768), (250, 117, 769), (251, 117, 770), (252, 117, 776),
     (253, 121, 769), (255, 121, 776)]"

definition nfd_unit :: "jschar \<Rightarrow> jsstring" where
  "nfd_unit c =
     (if c < 192 \<or> 255 < c then [c]
      else case map_of latin1_decomposition c of
             Some (b, m) \<Rightarrow> [b, m]
           | None \<Rightarrow> [c])"

definition nfd :: "jsstring \<Rightarrow> jsstring" where
  "nfd s = concat (map nfd_unit s)"

text \<open>The character classes of the regular expressions of the source.\<close>

definition is_space :: "jschar \<Rightarrow> bool" where
  \<comment> \<open>\<^verbatim>\<open>\s\<close>, which is also what \<^verbatim>\<open>trim\<close> strips\<close>
  "is_space c =
     ((9 \<le> c \<and> c \<le> 13) \<or> c = 32 \<or> c = 160 \<or> c = 5760 \<or> (8192 \<le> c \<and> c \<le> 8202) \<or>
      c = 8232 \<or> c = 8233 \<or> c = 8239 \<or> c = 8287 \<or> c = 12288 \<or> c = 65279)"

definition is_digit :: "jschar \<Rightarrow> bool" where
  \<comment> \<open>\<^verbatim>\<open>\d\<close>\<close>
  "is_digit c = (48 \<le> c \<and> c \<le> 57)"

definition is_word :: "jschar \<Rightarrow> bool" where
  \<comment> \<open>\<^verbatim>\<open>\w\<close>\<close>
  "is_word c = ((97 \<le> c \<and> c \<le> 122) \<or> (65 \<le> c \<and> c \<le> 90) \<or> is_digit c \<or> c = 95)"

definition is_combining :: "jschar \<Rightarrow> bool" where
  \<comment> \<open>\<^verbatim>\<open>[\u0300-\u036f]\<close>\<close>
  "is_combining c = (768 \<le> c \<and> c \<le> 879)"

definition norm_keep :: "jschar \<Rightarrow> bool" where
  \<comment> \<open>\<^verbatim>\<open>[a-z0-9+& ]\<close>\<close>
  "norm_keep c = ((97 \<le> c \<and> c \<le> 122) \<or> is_digit c \<or> c = 43 \<or> c = 38 \<or> c = 32)"

text \<open>
  \<^verbatim>\<open>s.replace(/[P]+/g, r)\<close> for a character class \<open>P\<close>: every maximal run of
  code units of the class is replaced by \<open>r\<close>.
\<close>

function replace_runs :: "(jschar \<Rightarrow> bool) \<Rightarrow> jsstring \<Rightarrow> jsstring \<Rightarrow> jsstring" where
  "replace_runs P r [] = []"
| "replace_runs P r (c # cs) =
     (if P c then r @ replace_runs P r (dropWhile P cs) else c # replace_runs P r cs)"
  by pat_completeness auto
termination
  by (relation "measure (\<lambda>(P, r, s). length s)")
     (auto simp: le_imp_less_Suc length_dropWhile_le)

definition trim :: "jsstring \<Rightarrow> jsstring" where
  "trim s = rev (dropWhile is_space (rev (dropWhile is_space s)))"

fun starts_with :: "'a list \<Rightarrow> 'a list \<Rightarrow> bool" where
  \<comment> \<open>\<^verbatim>\<open>s.startsWith(a)\<close>\<close>
  "starts_with s [] = True"
| "starts_with [] (a # as) = False"
| "starts_with (c # cs) (a # as) = (if c = a then starts_with cs as else False)"

fun str_includes :: "'a list \<Rightarrow> 'a list \<Rightarrow> bool" where
  \<comment> \<open>\<^verbatim>\<open>s.includes(a)\<close>\<close>
  "str_includes [] a = (a = [])"
| "str_includes (c # cs) a = (if starts_with (c # cs) a then True else str_includes cs a)"

fun split_on :: "jschar \<Rightarrow> jsstring \<Rightarrow> jsstring list" where
  \<comment> \<open>\<^verbatim>\<open>s.split(c)\<close> for a separator of one code unit\<close>
  "split_on sep [] = [[]]"
| "split_on sep (c # cs) =
     (if c = sep then [] # split_on sep cs
      else case split_on sep cs of
             [] \<Rightarrow> [[c]]
           | p # ps \<Rightarrow> (c # p) # ps)"

subsection \<open>Regular expressions\<close>

text \<open>
  The regular expressions of the source are terms of \<open>rx\<close>, matched by backtracking in
  the order of ECMAScript: the alternatives of \<open>Alt\<close> left to right, \<open>Star\<close> greedy.
  The source iterates character classes only (\<^verbatim>\<open>\s*\<close>, \<^verbatim>\<open>\d+\<close>,
  \<^verbatim>\<open>.*\<close>, \<^verbatim>\<open>\w+\<close>), so \<open>Star\<close> takes a class. A match state is the text
  before the position (reversed), the text from the position on, and the capture groups
  set so far.
\<close>

datatype rx =
    Eps
  | Cls "jschar \<Rightarrow> bool"
  | Seq rx rx
  | Alt rx rx
  | Star "jschar \<Rightarrow> bool"
  | WordB
  | Eos
  | Grp nat rx

type_synonym captures = "(nat \<times> jsstring) list"
type_synonym mstate = "jsstring \<times> jsstring \<times> captures"

fun star_match ::
  "(jschar \<Rightarrow> bool) \<Rightarrow> (mstate \<Rightarrow> mstate option) \<Rightarrow> jsstring \<Rightarrow> jsstring \<Rightarrow> captures \<Rightarrow> mstate option"
where
  "star_match P k pre [] caps = k (pre, [], caps)"
| "star_match P k pre (c # cs) caps =
     (if P c then
        (case star_match P k (c # pre) cs caps of
           Some r \<Rightarrow> Some r
         | None \<Rightarrow> k (pre, c # cs, caps))
      else k (pre, c # cs, caps))"

definition at_word_boundary :: "jsstring \<Rightarrow> jsstring \<Rightarrow> bool" where
  \<comment> \<open>\<^verbatim>\<open>\b\<close>: exactly one of the two neighbours is a word character\<close>
  "at_word_boundary pre rest =
     ((case pre of [] \<Rightarrow> False | p # _ \<Rightarrow> is_word p) \<noteq>
      (case rest of [] \<Rightarrow> False | c # _ \<Rightarrow> is_word c))"

primrec rmatch :: "rx \<Rightarrow> (mstate \<Rightarrow> mstate option) \<Rightarrow> mstate \<Rightarrow> mstate option" where
  "rmatch Eps k = k"
| "rmatch (Cls P) k =
     (\<lambda>(pre, rest, caps).
        case rest of
          [] \<Rightarrow> None
        | c # cs \<Rightarrow> if P c then k (c # pre, cs, caps) else None)"
| "rmatch (Seq a b) k = rmatch a (rmatch b k)"
| "rmatch (Alt a b) k =
     (\<lambda>st. case rmatch a k st of Some r \<Rightarrow> Some r | None \<Rightarrow> rmatch b k st)"
| "rmatch (Star P) k = (\<lambda>(pre, rest, caps). star_match P k pre rest caps)"
| "rmatch WordB k =
     (\<lambda>(pre, rest, caps). if at_word_boundary pre rest then k (pre, rest, caps) else None)"
| "rmatch Eos k =
     (\<lambda>(pre, rest, caps). if rest = [] then k (pre, rest, caps) else None)"
| "rmatch (Grp n a) k =
     (\<lambda>(pre, rest, caps).
        rmatch a
          (\<lambda>(pre', rest', caps').
             k (pre', rest', (n, rev (take (length pre' - length pre) pre')) # caps'))
          (pre, rest, caps))"

definition Chr :: "jschar \<Rightarrow> rx" where
  "Chr c = Cls (\<lambda>x. x = c)"

definition Opt :: "rx \<Rightarrow> rx" where
  \<comment> \<open>\<^verbatim>\<open>a?\<close>\<close>
  "Opt a = Alt a Eps"

definition Plus :: "(jschar \<Rightarrow> bool) \<Rightarrow> rx" where
  \<comment> \<open>\<^verbatim>\<open>[P]+\<close>\<close>
  "Plus P = Seq (Cls P) (Star P)"

definition lit :: "string \<Rightarrow> rx" where
  \<comment> \<open>a literal of the pattern\<close>
  "lit s = foldr (\<lambda>c r. Seq (Chr (of_char c)) r) s Eps"

definition lit_i :: "string \<Rightarrow> rx" where
  \<comment> \<open>a literal of lower-case ASCII letters under the flag \<^verbatim>\<open>i\<close>: without the flag
     \<^verbatim>\<open>u\<close>, only the two ASCII forms of a letter match it\<close>
  "lit_i s = foldr (\<lambda>c r. Seq (Cls (\<lambda>x. x = of_char c \<or> x + 32 = of_char c)) r) s Eps"

fun alts :: "rx list \<Rightarrow> rx" where
  \<comment> \<open>\<^verbatim>\<open>a|b|c\<close>\<close>
  "alts [] = Cls (\<lambda>c. False)"
| "alts [r] = r"
| "alts (r # rs) = Alt r (alts rs)"

fun rexec_from :: "rx \<Rightarrow> jsstring \<Rightarrow> jsstring \<Rightarrow> (jsstring \<times> mstate) option" where
  \<comment> \<open>the leftmost match at or after the position: where it starts, and its final state\<close>
  "rexec_from r pre [] = map_option (Pair pre) (rmatch r Some (pre, [], []))"
| "rexec_from r pre (c # cs) =
     (case rmatch r Some (pre, c # cs, []) of
        Some st \<Rightarrow> Some (pre, st)
      | None \<Rightarrow> rexec_from r (c # pre) cs)"

definition rtest :: "rx \<Rightarrow> jsstring \<Rightarrow> bool" where
  \<comment> \<open>\<^verbatim>\<open>re.test(s)\<close>\<close>
  "rtest r s = (rexec_from r [] s \<noteq> None)"

definition rmatch_groups :: "rx \<Rightarrow> jsstring \<Rightarrow> captures option" where
  \<comment> \<open>\<^verbatim>\<open>s.match(re)\<close> without the flag \<^verbatim>\<open>g\<close>: the groups of the leftmost match\<close>
  "rmatch_groups r s = map_option (\<lambda>(start, pre, rest, caps). caps) (rexec_from r [] s)"

definition group :: "captures \<Rightarrow> nat \<Rightarrow> jsstring option" where
  "group caps n = map_of caps n"

definition replace_first :: "rx \<Rightarrow> jsstring \<Rightarrow> jsstring \<Rightarrow> jsstring" where
  \<comment> \<open>\<^verbatim>\<open>s.replace(re, r)\<close> without the flag \<^verbatim>\<open>g\<close>, for a replacement with no \<^verbatim>\<open>$\<close>\<close>
  "replace_first r repl s =
     (case rexec_from r [] s of
        None \<Rightarrow> s
      | Some (start, pre, rest, caps) \<Rightarrow> rev start @ repl @ rest)"

fun replace_all_from ::
  "rx \<Rightarrow> (captures \<Rightarrow> jsstring) \<Rightarrow> nat \<Rightarrow> jsstring \<Rightarrow> jsstring \<Rightarrow> jsstring"
where
  \<comment> \<open>\<^verbatim>\<open>s.replace(re, r)\<close> with the flag \<^verbatim>\<open>g\<close>; \<open>skip\<close> counts the code units
     still inside the last match\<close>
  "replace_all_from r f skip pre [] =
     (if skip = 0 then
        (case rmatch r Some (pre, [], []) of
           Some (pre', rest', caps) \<Rightarrow> f caps
         | None \<Rightarrow> [])
      else [])"
| "replace_all_from r f skip pre (c # cs) =
     (if skip = 0 then
        (case rmatch r Some (pre, c # cs, []) of
           Some (pre', rest', caps) \<Rightarrow>
             (let n = length pre' - length pre in
              if n = 0 then f caps @ c # replace_all_from r f 0 (c # pre) cs
              else f caps @ replace_all_from r f (n - 1) (c # pre) cs)
         | None \<Rightarrow> c # replace_all_from r f 0 (c # pre) cs)
      else replace_all_from r f (skip - 1) (c # pre) cs)"

definition replace_all :: "rx \<Rightarrow> (captures \<Rightarrow> jsstring) \<Rightarrow> jsstring \<Rightarrow> jsstring" where
  "replace_all r f s = replace_all_from r f 0 [] s"

definition wb :: "string \<Rightarrow> rx" where
  \<comment> \<open>\<^verbatim>\<open>/\bword\b/\<close>\<close>
  "wb s = Seq WordB (Seq (lit s) WordB)"

definition seqs :: "rx list \<Rightarrow> rx" where
  \<comment> \<open>concatenation\<close>
  "seqs rs = foldr Seq rs Eps"

definition is_dot :: "jschar \<Rightarrow> bool" where
  \<comment> \<open>\<^verbatim>\<open>.\<close>: every code unit but the line terminators\<close>
  "is_dot c = (c \<noteq> 10 \<and> c \<noteq> 13 \<and> c \<noteq> 8232 \<and> c \<noteq> 8233)"

subsection \<open>Arrays, sets and objects\<close>

text \<open>
  \<^verbatim>\<open>Array.prototype.sort\<close> with a comparator. The sort of ECMAScript is stable, and
  for a consistent comparator its result is the one of this insertion sort; for an
  inconsistent comparator ECMAScript leaves the order to the implementation. The
  comparator's result is used by its sign (a \<^verbatim>\<open>NaN\<close> counts as \<open>0\<close>, which the
  comparators below write out).
\<close>

fun js_insert :: "('a \<Rightarrow> 'a \<Rightarrow> rat) \<Rightarrow> 'a \<Rightarrow> 'a list \<Rightarrow> 'a list" where
  "js_insert cmp x [] = [x]"
| "js_insert cmp x (y # ys) = (if cmp x y \<le> 0 then x # y # ys else y # js_insert cmp x ys)"

definition js_sort :: "('a \<Rightarrow> 'a \<Rightarrow> rat) \<Rightarrow> 'a list \<Rightarrow> 'a list" where
  "js_sort cmp xs = foldr (js_insert cmp) xs []"

definition uniq :: "'a list \<Rightarrow> 'a list" where
  \<comment> \<open>\<^verbatim>\<open>Array.from(new Set(xs))\<close>: a set keeps the order of first insertion\<close>
  "uniq xs = foldl (\<lambda>acc x. if x \<in> set acc then acc else acc @ [x]) [] xs"

fun dict_set :: "('k \<times> 'v) list \<Rightarrow> 'k \<Rightarrow> 'v \<Rightarrow> ('k \<times> 'v) list" where
  \<comment> \<open>\<^verbatim>\<open>dict[k] = v\<close> on an object whose keys are not array indices: a new key goes
     last, a key already there keeps its place\<close>
  "dict_set [] k v = [(k, v)]"
| "dict_set ((k', v') # d) k v =
     (if k' = k then (k', v) # d else (k', v') # dict_set d k v)"

datatype error = TypeError | RangeError

text \<open>
  A property read \<^verbatim>\<open>obj[key]\<close> on an object literal that finds no own property goes on
  to \<^verbatim>\<open>Object.prototype\<close>. These are the names it finds there.
\<close>

definition object_prototype_names :: "jsstring list" where
  "object_prototype_names =
     [js ''constructor'', js ''__defineGetter__'', js ''__defineSetter__'',
      js ''hasOwnProperty'', js ''__lookupGetter__'', js ''__lookupSetter__'',
      js ''isPrototypeOf'', js ''propertyIsEnumerable'', js ''toString'', js ''valueOf'',
      js ''__proto__'', js ''toLocaleString'']"

section \<open>lib/abbreviations.js: the text normaliser\<close>

text \<open>
  \<^verbatim>\<open>
  function norm(s) {
    return String(s || "")
      .toLowerCase()
      .normalize("NFD").replace(/[\u0300-\u036f]/g, "")
      .replace(/[^a-z0-9+& ]+/g, " ")
      .replace(/\s+/g, " ")
      .trim();
  }
  \<close>
\<close>

definition norm :: "jsstring \<Rightarrow> jsstring" where
  "norm s =
     trim (replace_runs is_space [32]
       (replace_runs (\<lambda>c. \<not> norm_keep c) [32]
         (filter (\<lambda>c. \<not> is_combining c) (nfd (toLowerCase s)))))"

section \<open>lib/abbreviations.js: families and aliases\<close>

record map_entry =
  entry_family :: jsstring
  aliases :: "jsstring list"

definition MAP :: "map_entry list" where
  "MAP =
   [\<lparr>entry_family = js ''SMSTS'', aliases =
      [js ''smsts'', js ''citb smsts'', js ''site management safety training scheme'',
       js ''site managers safety training scheme'',
       js ''site manager safety training scheme'', js ''site management safety'',
       js ''smsts course'']\<rparr>,
    \<lparr>entry_family = js ''SMSTS Refresher'', aliases =
      [js ''smsts refresher'', js ''smsts-r'', js ''citb smsts refresher'',
       js ''site management safety training scheme refresher'',
       js ''site managers safety training scheme refresher'', js ''smsts renewal'',
       js ''smsts update'', js ''smsts refresh'']\<rparr>,
    \<lparr>entry_family = js ''SSSTS'', aliases =
      [js ''sssts'', js ''citb sssts'', js ''site supervisors safety training scheme'',
       js ''site supervisor safety training scheme'', js ''site supervisors safety'',
       js ''supervisors safety training scheme'', js ''sssts course'']\<rparr>,
    \<lparr>entry_family = js ''SSSTS Refresher'', aliases =
      [js ''sssts refresher'', js ''sssts-r'', js ''citb sssts refresher'',
       js ''site supervisors safety training scheme refresher'', js ''sssts renewal'',
       js ''sssts update'', js ''sssts refresh'']\<rparr>,
    \<lparr>entry_family = js ''HSA'', aliases =
      [js ''hsa'', js ''health and safety awareness'', js ''health & safety awareness'',
       js ''health and safety awareness courses'', js ''health and safety'',
       js ''health & safety'', js ''h&s'', js ''hsa course'',
       js ''citb health and safety awareness'', js ''citb hsa'']\<rparr>,
    \<lparr>entry_family = js ''TWC'', aliases =
      [js ''twc'', js ''citb twc'', js ''temporary works coordinator'',
       js ''temporary works co ordinator'', js ''temporary works co-ordinator'',
       js ''temporary works coordinator course'',
       js ''temporary works co ordinator course'', js ''tw coordinator'',
       js ''tw co-ordinator'', js ''twc course'']\<rparr>,
    \<lparr>entry_family = js ''TWC Refresher'', aliases =
      [js ''twc refresher'', js ''citb twc refresher'',
       js ''temporary works coordinator refresher'',
       js ''temporary works co-ordinator refresher'', js ''twc renewal'',
       js ''twc update'', js ''twc refresh'']\<rparr>,
    \<lparr>entry_family = js ''TWS'', aliases =
      [js ''tws'', js ''citb tws'', js ''temporary works supervisor'',
       js ''temporary work supervisor'', js ''tw supervisor'', js ''tws course'']\<rparr>,
    \<lparr>entry_family = js ''NEBOSH General'', aliases =
      [js ''nebosh general'', js ''nebosh ngc'',
       js ''nebosh national general certificate'', js ''nebosh certificate general'',
       js ''nebosh health and safety'', js ''nebosh h&s'', js ''nebosh'']\<rparr>,
    \<lparr>entry_family = js ''NEBOSH Construction'', aliases =
      [js ''nebosh construction'', js ''nebosh ncc'',
       js ''nebosh national certificate in construction'',
       js ''nebosh construction certificate'', js ''nebosh construction safety'']\<rparr>,
    \<lparr>entry_family = js ''IOSH Managing Safely'', aliases =
      [js ''iosh managing safely'', js ''managing safely'', js ''iosh ms'',
       js ''iosh manage safely'', js ''iosh managing'']\<rparr>,
    \<lparr>entry_family = js ''IOSH Working Safely'', aliases =
      [js ''iosh working safely'', js ''working safely'', js ''iosh ws'',
       js ''iosh working'']\<rparr>,
    \<lparr>entry_family = js ''IEMA'', aliases =
      [js ''iema'', js ''iema foundation'', js ''iema environmental management'',
       js ''iema sustainability'', js ''iema course'', js ''environmental'',
       js ''environmental management'',
       js ''foundation certificate in environmental management'',
       js ''foundation in environmental management'']\<rparr>,
    \<lparr>entry_family = js ''MHFA'', aliases =
      [js ''mhfa'', js ''mental health first aid'', js ''mental health first aid course'',
       js ''mhfa course'', js ''mhfa england'', js ''mental health first aid 2 day'',
       js ''mhfa 2 day'', js ''mhfa two day'', js ''first aid'']\<rparr>,
    \<lparr>entry_family = js ''SEATS'', aliases =
      [js ''seats'', js ''site environmental awareness training scheme'',
       js ''site environmental awareness'', js ''citb seats'']\<rparr>,
    \<lparr>entry_family = js ''EUSR Water Hygiene AM'', aliases =
      [js ''eusr water hygiene am'', js ''water hygiene am session'',
       js ''am water hygiene'', js ''eusr am'', js ''am session water hygiene'',
       js ''water hygiene morning'', js ''morning water hygiene'']\<rparr>,
    \<lparr>entry_family = js ''EUSR Water Hygiene PM'', aliases =
      [js ''eusr water hygiene pm'', js ''water hygiene pm session'',
       js ''pm water hygiene'', js ''eusr pm'', js ''pm session water hygiene'',
       js ''water hygiene afternoon'', js ''afternoon water hygiene'']\<rparr>]"

definition ends_refresher :: "jsstring \<Rightarrow> bool" where
  \<comment> \<open>\<^verbatim>\<open>/refresher$/i.test(f)\<close>\<close>
  "ends_refresher f = rtest (Seq (lit_i ''refresher'') Eos) f"

definition strip_refresher :: "jsstring \<Rightarrow> jsstring" where
  \<comment> \<open>\<^verbatim>\<open>f.replace(/\s+Refresher$/i, "")\<close>\<close>
  "strip_refresher f = replace_first (seqs [Plus is_space, lit_i ''refresher'', Eos]) [] f"

definition REFRESHER_AVAILABLE :: "jsstring list" where
  \<comment> \<open>a \<^verbatim>\<open>Set\<close>, in the order of insertion\<close>
  "REFRESHER_AVAILABLE =
     uniq (map (\<lambda>m. strip_refresher (entry_family m))
       (filter (\<lambda>m. ends_refresher (entry_family m)) MAP))"

definition FAMILIES :: "jsstring list" where
  "FAMILIES = uniq (map (\<lambda>m. strip_refresher (entry_family m)) MAP)"

definition ALIAS_TO_FAMILY :: "(jsstring \<times> jsstring) list" where
  \<comment> \<open>the object \<^verbatim>\<open>dict\<close>, as the list of its entries in the order of
     \<^verbatim>\<open>Object.entries\<close>\<close>
  "ALIAS_TO_FAMILY =
     foldl (\<lambda>dict m.
         let base = strip_refresher (entry_family m)
         in foldl (\<lambda>dict a. dict_set dict (norm a) base) dict (aliases m))
       [] MAP"

definition detectRefresher :: "jsstring \<Rightarrow> bool option" where
  "detectRefresher s =
     (let t = norm s in
      if rtest (wb ''refresher'') t \<or> rtest (wb ''renewal'') t \<or> rtest (wb ''update'') t \<or>
         rtest (wb ''refresh'') t
      then Some True
      else if rtest (wb ''standard'') t then Some False
      else None)"

fun lev_row :: "jschar \<Rightarrow> jsstring \<Rightarrow> nat \<Rightarrow> nat \<Rightarrow> nat list \<Rightarrow> nat list" where
  \<comment> \<open>the inner loop over \<open>j\<close>: \<open>diag\<close> is \<^verbatim>\<open>dp[i-1][j-1]\<close>, \<open>left\<close> is
     \<^verbatim>\<open>dp[i][j-1]\<close>, the list is \<^verbatim>\<open>dp[i-1][j..n]\<close>\<close>
  "lev_row x (y # ys) diag left (up # ups) =
     (let cost = (if x = y then 0 else 1);
          v = min (min (up + 1) (left + 1)) (diag + cost)
      in v # lev_row x ys up v ups)"
| "lev_row x ys diag left ups = []"

definition levenshtein :: "jsstring \<Rightarrow> jsstring \<Rightarrow> nat" where
  "levenshtein a0 b0 =
     (let a = norm a0; b = norm b0; m = length a; n = length b in
      if m = 0 then n
      else if n = 0 then m
      else
        let row0 = (0, [1..<n + 1]);
            rowm = foldl (\<lambda>(d0, ds) (i, x). (i, lev_row x b d0 i ds)) row0 (zip [1..<m + 1] a)
        in last (fst rowm # snd rowm))"

definition closestFamilies :: "jsstring \<Rightarrow> nat \<Rightarrow> jsstring list" where
  "closestFamilies t limit =
     (let q = norm t;
          scored =
            js_sort (\<lambda>a b. of_nat (snd a) - of_nat (snd b))
              (map (\<lambda>f.
                  let acr = (case split_on 32 f of [] \<Rightarrow> [] | p # ps \<Rightarrow> p)
                  in (f, min (levenshtein q f) (levenshtein q acr)))
                FAMILIES)
      in map fst (take limit (filter (\<lambda>s. snd s \<le> 3) scored)))"

record resolved =
  family :: "jsstring option"
  refresher :: "bool option"
  tokens :: "jsstring list"

definition falsy :: "jsstring option \<Rightarrow> bool" where
  \<comment> \<open>\<^verbatim>\<open>!family\<close>: \<^verbatim>\<open>null\<close> or the empty string\<close>
  "falsy f = (f = None \<or> f = Some [])"

definition acrHits :: "jsstring list" where
  "acrHits =
     [js ''smsts'', js ''sssts'', js ''twc'', js ''tws'', js ''seats'', js ''eusr'', js ''hsa'',
      js ''nebosh'', js ''iema'', js ''mhfa'', js ''iosh'']"

definition mapAcr :: "(jsstring \<times> jsstring) list" where
  "mapAcr =
     [(js ''smsts'', js ''SMSTS''), (js ''sssts'', js ''SSSTS''), (js ''twc'', js ''TWC''),
      (js ''tws'', js ''TWS''), (js ''seats'', js ''SEATS''), (js ''eusr'', js ''EUSR''),
      (js ''hsa'', js ''HSA''), (js ''nebosh'', js ''NEBOSH''), (js ''iema'', js ''IEMA''),
      (js ''mhfa'', js ''MHFA''), (js ''iosh'', js ''IOSH'')]"

definition rx_health_safety :: rx where
  \<comment> \<open>\<^verbatim>\<open>/\bhealth(?:\s*&|\s*and)?\s*safety\b/\<close>\<close>
  "rx_health_safety =
     seqs [WordB, lit ''health'',
           Opt (Alt (Seq (Star is_space) (lit ''&'')) (Seq (Star is_space) (lit ''and''))),
           Star is_space, lit ''safety'', WordB]"

definition rx_am :: rx where
  \<comment> \<open>\<^verbatim>\<open>/\b(am|morning)\b/\<close>\<close>
  "rx_am = seqs [WordB, Grp 1 (Alt (lit ''am'') (lit ''morning'')), WordB]"

definition rx_pm :: rx where
  \<comment> \<open>\<^verbatim>\<open>/\b(pm|afternoon)\b/\<close>\<close>
  "rx_pm = seqs [WordB, Grp 1 (Alt (lit ''pm'') (lit ''afternoon'')), WordB]"

definition iosh_variant :: "jsstring \<Rightarrow> jsstring option" where
  \<comment> \<open>the two tests on the phrases of IOSH, which the source writes twice\<close>
  "iosh_variant q =
     (if rtest (wb ''managing safely'') q \<or> rtest (wb ''iosh managing'') q
      then Some (js ''IOSH Managing Safely'')
      else if rtest (wb ''working safely'') q \<or> rtest (wb ''iosh working'') q
      then Some (js ''IOSH Working Safely'')
      else None)"

definition eusr_variant :: "jsstring \<Rightarrow> jsstring option" where
  \<comment> \<open>the two tests on AM and PM, which the source writes twice\<close>
  "eusr_variant q =
     (if rtest rx_am q then Some (js ''EUSR Water Hygiene AM'')
      else if rtest rx_pm q then Some (js ''EUSR Water Hygiene PM'')
      else None)"

text \<open>
  \<^verbatim>\<open>expandKeywords\<close> assigns \<^verbatim>\<open>family\<close> in a sequence of steps, each of which
  reads the normalised text \<open>q\<close> and the family found so far.
\<close>

definition alias_direct :: "jsstring \<Rightarrow> jsstring option" where
  \<comment> \<open>1) the first alias, in the order of the entries of the object, that \<open>q\<close> contains\<close>
  "alias_direct q =
     map_option snd (find (\<lambda>(alias, fam). str_includes q alias) ALIAS_TO_FAMILY)"

definition acronym_step :: "jsstring \<Rightarrow> jsstring option \<Rightarrow> jsstring option" where
  "acronym_step q fam =
     (case find (\<lambda>a. str_includes q a) acrHits of
        Some hit \<Rightarrow> map_of mapAcr hit
      | None \<Rightarrow> fam)"

definition iosh_phrase_step :: "jsstring \<Rightarrow> jsstring option \<Rightarrow> jsstring option" where
  "iosh_phrase_step q fam =
     (if falsy fam then (case iosh_variant q of Some v \<Rightarrow> Some v | None \<Rightarrow> fam) else fam)"

definition water_hygiene_step :: "jsstring \<Rightarrow> jsstring option \<Rightarrow> jsstring option" where
  "water_hygiene_step q fam =
     (if falsy fam \<and> rtest (wb ''water hygiene'') q then
        (case eusr_variant q of Some v \<Rightarrow> Some v | None \<Rightarrow> Some (js ''EUSR''))
      else fam)"

definition heuristics :: "jsstring \<Rightarrow> jsstring option \<Rightarrow> jsstring option" where
  \<comment> \<open>2) acronyms, the phrases of IOSH, water hygiene\<close>
  "heuristics q fam =
     (if falsy fam then water_hygiene_step q (iosh_phrase_step q (acronym_step q fam)) else fam)"

definition hsa_fallback :: "jsstring \<Rightarrow> jsstring option \<Rightarrow> jsstring option" where
  "hsa_fallback q fam =
     (if falsy fam \<and> rtest rx_health_safety q \<and>
         \<not> (rtest (wb ''nebosh'') q \<or> rtest (wb ''iosh'') q)
      then Some (js ''HSA'') else fam)"

definition nebosh_construction :: "jsstring \<Rightarrow> jsstring option \<Rightarrow> jsstring option" where
  "nebosh_construction q fam =
     (if fam = Some (js ''NEBOSH General'') \<and> str_includes q (js ''construction'')
      then Some (js ''NEBOSH Construction'') else fam)"

definition nebosh_ambiguous :: "jsstring \<Rightarrow> jsstring option \<Rightarrow> jsstring option" where
  "nebosh_ambiguous q fam =
     (if \<not> falsy fam \<and>
         (case fam of Some f \<Rightarrow> starts_with f (js ''NEBOSH'') | None \<Rightarrow> False) \<and>
         \<not> str_includes q (js ''general'') \<and> \<not> str_includes q (js ''construction'')
      then Some (js ''NEBOSH'') else fam)"

definition iosh_specialise :: "jsstring \<Rightarrow> jsstring option \<Rightarrow> jsstring option" where
  "iosh_specialise q fam =
     (if fam = Some (js ''IOSH'') then
        (case iosh_variant q of Some v \<Rightarrow> Some v | None \<Rightarrow> fam)
      else fam)"

definition eusr_specialise :: "jsstring \<Rightarrow> jsstring option \<Rightarrow> jsstring option" where
  "eusr_specialise q fam =
     (if fam = Some (js ''EUSR'') then
        (case eusr_variant q of Some v \<Rightarrow> Some v | None \<Rightarrow> fam)
      else fam)"

definition resolve_family :: "jsstring \<Rightarrow> jsstring option" where
  "resolve_family q =
     eusr_specialise q (iosh_specialise q (nebosh_ambiguous q (nebosh_construction q
       (hsa_fallback q (heuristics q (alias_direct q))))))"

definition expandKeywords :: "jsstring \<Rightarrow> resolved" where
  "expandKeywords t =
     (if t = [] then \<lparr>family = None, refresher = None, tokens = []\<rparr>
      else
        let q = norm t
        in \<lparr>family = resolve_family q, refresher = detectRefresher q, tokens = [q]\<rparr>)"

subsection \<open>Matching a session name against a family\<close>

text \<open>
  The value of a call of \<^verbatim>\<open>isCourseMatchByFamily\<close>: a boolean, or (through an
  inherited property of \<^verbatim>\<open>checks\<close>) an object or a string, which is truthy.
\<close>

datatype matchres = MBool bool | MOther

definition truthy :: "matchres \<Rightarrow> bool" where
  "truthy v = (case v of MBool b \<Rightarrow> b | MOther \<Rightarrow> True)"

definition call_inherited :: "jsstring \<Rightarrow> error + matchres option" where
  \<comment> \<open>\<^verbatim>\<open>checks[key]?.()\<close> for a key that is no own property of \<^verbatim>\<open>checks\<close>:
     \<open>None\<close> is \<^verbatim>\<open>undefined\<close>\<close>
  "call_inherited key =
     (if key \<in> set [js ''constructor'', js ''toString'', js ''toLocaleString'', js ''valueOf'']
      then Inr (Some MOther)
      else if key \<in> set [js ''hasOwnProperty'', js ''isPrototypeOf'', js ''propertyIsEnumerable'']
      then Inr (Some (MBool False))
      else if key \<in> set [js ''__defineGetter__'', js ''__defineSetter__'', js ''__proto__'']
      then Inl TypeError
      else Inr None)"

definition rx_hsa_name :: rx where
  \<comment> \<open>\<^verbatim>\<open>/\bhealth(?:\s*&|\s*and)?\s*safety(?:\s*awareness)?\b/\<close>\<close>
  "rx_hsa_name =
     seqs [WordB, lit ''health'',
           Opt (Alt (Seq (Star is_space) (lit ''&'')) (Seq (Star is_space) (lit ''and''))),
           Star is_space, lit ''safety'',
           Opt (Seq (Star is_space) (lit ''awareness'')), WordB]"

definition rx_iema_name :: rx where
  \<comment> \<open>\<^verbatim>\<open>/\benvironmental\b.*\bmanagement\b/\<close>\<close>
  "rx_iema_name =
     seqs [WordB, lit ''environmental'', WordB, Star is_dot, WordB, lit ''management'', WordB]"

definition hasTWC :: "jsstring \<Rightarrow> bool" where
  "hasTWC n =
     (str_includes n (js ''temporary works coordinator'') \<or>
      str_includes n (js ''temporary works co-ordinator'') \<or>
      str_includes n (js ''temporary works co ordinator''))"

definition hasTWS :: "jsstring \<Rightarrow> bool" where
  "hasTWS n = str_includes n (js ''temporary works supervisor'')"

definition checks :: "jsstring \<Rightarrow> (jsstring \<times> bool) list" where
  \<comment> \<open>the own properties of \<^verbatim>\<open>checks\<close>, each with what its function returns on \<open>n\<close>\<close>
  "checks n =
     [(js ''SMSTS'',
         str_includes n (js ''site management safety training scheme'') \<and>
         \<not> str_includes n (js ''refresher'')),
      (js ''SMSTS Refresher'',
         str_includes n (js ''site management safety training scheme'') \<and>
         str_includes n (js ''refresher'')),
      (js ''SSSTS'',
         str_includes n (js ''site supervisors safety training scheme'') \<and>
         \<not> str_includes n (js ''refresher'')),
      (js ''SSSTS Refresher'',
         str_includes n (js ''site supervisors safety training scheme'') \<and>
         str_includes n (js ''refresher'')),
      (js ''HSA'', rtest rx_hsa_name n),
      (js ''TWC'', hasTWC n \<and> \<not> str_includes n (js ''refresher'')),
      (js ''TWC Refresher'', hasTWC n \<and> str_includes n (js ''refresher'')),
      (js ''TWS'', hasTWS n \<and> \<not> str_includes n (js ''refresher'')),
      (js ''NEBOSH General'',
         str_includes n (js ''nebosh'') \<and> \<not> str_includes n (js ''construction'')),
      (js ''NEBOSH Construction'',
         str_includes n (js ''nebosh'') \<and> str_includes n (js ''construction'')),
      (js ''NEBOSH'', str_includes n (js ''nebosh'')),
      (js ''IOSH Managing Safely'',
         str_includes n (js ''iosh managing safely'') \<or> rtest (wb ''managing safely'') n \<or>
         rtest (wb ''iosh managing'') n),
      (js ''IOSH Working Safely'',
         str_includes n (js ''iosh working safely'') \<or> rtest (wb ''working safely'') n \<or>
         rtest (wb ''iosh working'') n),
      (js ''IEMA'',
         str_includes n (js ''iema'') \<or>
         rtest (wb ''foundation certificate in environmental management'') n \<or>
         rtest rx_iema_name n),
      (js ''MHFA'',
         str_includes n (js ''mental health first aid'') \<or> str_includes n (js ''mhfa'')),
      (js ''SEATS'',
         str_includes n (js ''site environmental awareness training scheme'') \<or>
         rtest (wb ''site environmental awareness'') n \<or> rtest (wb ''seats'') n),
      (js ''EUSR Water Hygiene AM'',
         rtest (wb ''water hygiene'') n \<and> (rtest rx_am n \<or> rtest (wb ''am session'') n)),
      (js ''EUSR Water Hygiene PM'',
         rtest (wb ''water hygiene'') n \<and> (rtest rx_pm n \<or> rtest (wb ''pm session'') n))]"

definition isCourseMatchByFamily :: "jsstring \<Rightarrow> jsstring option \<Rightarrow> error + matchres" where
  "isCourseMatchByFamily name fam =
     (if falsy fam then Inr (MBool True)
      else
        let n = toLowerCase name in
        if fam = Some (js ''IOSH'') \<or> fam = Some (js ''EUSR'') then Inr (MBool False)
        else
          (case fam of
             None \<Rightarrow> Inr (MBool True)
           | Some key \<Rightarrow>
               (case map_of (checks n) key of
                  Some b \<Rightarrow> Inr (MBool b)
                | None \<Rightarrow>
                    (case call_inherited key of
                       Inl e \<Rightarrow> Inl e
                     | Inr None \<Rightarrow> Inr (MBool True)
                     | Inr (Some v) \<Rightarrow> Inr v))))"

definition hasRefresher :: "jsstring \<Rightarrow> bool" where
  "hasRefresher n =
     (rtest (wb ''refresher'') n \<or> rtest (wb ''renewal'') n \<or> rtest (wb ''update'') n \<or>
      rtest (wb ''refresh'') n)"

definition isRefresherMatch :: "jsstring \<Rightarrow> bool option \<Rightarrow> bool" where
  "isRefresherMatch name r =
     (case r of
        None \<Rightarrow> True
      | Some b \<Rightarrow> (let n = toLowerCase name in if b then hasRefresher n else \<not> hasRefresher n))"

definition extractFormatOrVenue :: "jsstring \<Rightarrow> jsstring" where
  "extractFormatOrVenue raw =
     (let n = toLowerCase raw in
      if str_includes n (js ''online'') then js ''Online (Instructor-led)''
      else
        let parts = map trim (split_on 124 raw) in
        if length parts \<ge> 3 \<and> parts ! 1 \<noteq> [] then parts ! 1 else js ''Venue TBC'')"

subsection \<open>Validating a query against the catalogue\<close>

record validation =
  recognizedFamily :: "jsstring option"
  refresherRequested :: "bool option"
  exists :: bool
  normalizedFamily :: "jsstring option"
  reason :: jsstring
  suggestions :: "jsstring list"

definition validateCourseQuery :: "jsstring \<Rightarrow> validation" where
  \<comment> \<open>a suggestion \<^verbatim>\<open>{ label }\<close> is its label\<close>
  "validateCourseQuery t =
     (let r = expandKeywords t in
      if falsy (family r) then
        \<lparr>recognizedFamily = None, refresherRequested = refresher r, exists = False,
         normalizedFamily = None, reason = js ''missing_family'',
         suggestions =
           concat (map (\<lambda>f. if f \<in> set REFRESHER_AVAILABLE then [f, f @ js '' Refresher''] else [f])
             (closestFamilies t 3))\<rparr>
      else if family r = Some (js ''IOSH'') then
        \<lparr>recognizedFamily = Some (js ''IOSH''), refresherRequested = refresher r, exists = False,
         normalizedFamily = None, reason = js ''needs_variant'',
         suggestions = [js ''IOSH Managing Safely'', js ''IOSH Working Safely'']\<rparr>
      else if family r = Some (js ''EUSR'') then
        \<lparr>recognizedFamily = Some (js ''EUSR''), refresherRequested = refresher r, exists = False,
         normalizedFamily = None, reason = js ''needs_variant'',
         suggestions = [js ''EUSR Water Hygiene AM'', js ''EUSR Water Hygiene PM'']\<rparr>
      else
        (case family r of
           None \<Rightarrow>
             \<lparr>recognizedFamily = None, refresherRequested = refresher r, exists = False,
              normalizedFamily = None, reason = js ''missing_family'', suggestions = []\<rparr>
         | Some fam \<Rightarrow>
             if refresher r = Some True \<and> fam \<notin> set REFRESHER_AVAILABLE then
               \<lparr>recognizedFamily = Some fam, refresherRequested = Some True, exists = False,
                normalizedFamily = None, reason = js ''variant_not_offered'',
                suggestions =
                  (fam @ js '' (Standard)'') #
                  map (\<lambda>x. fst x @ js '' Refresher'')
                    (take 2
                      (js_sort (\<lambda>a b. of_nat (snd a) - of_nat (snd b))
                        (map (\<lambda>f. (f, levenshtein f fam)) REFRESHER_AVAILABLE)))\<rparr>
             else
               \<lparr>recognizedFamily = Some fam, refresherRequested = refresher r, exists = True,
                normalizedFamily =
                  Some (if refresher r = Some True then fam @ js '' Refresher'' else fam),
                reason = js ''ok'', suggestions = []\<rparr>))"

section \<open>lib/dates.js\<close>

subsection \<open>Numbers and dates\<close>

text \<open>
  The numbers of this part of the source are integers or \<^verbatim>\<open>NaN\<close>. A \<^verbatim>\<open>Date\<close>
  is its time value: the milliseconds since the epoch, or \<^verbatim>\<open>NaN\<close> for an invalid
  date. The integers are exact here; those of JavaScript are exact up to \<open>2^53\<close>, above
  every time value that \<open>TimeClip\<close> lets through.
\<close>

datatype num = N int | NaN

type_synonym date = num

definition nmap :: "(int \<Rightarrow> int) \<Rightarrow> num \<Rightarrow> num" where
  "nmap f x = (case x of N a \<Rightarrow> N (f a) | NaN \<Rightarrow> NaN)"

definition nless :: "num \<Rightarrow> num \<Rightarrow> bool" where
  \<comment> \<open>\<^verbatim>\<open>x < y\<close>: false when either side is \<^verbatim>\<open>NaN\<close>\<close>
  "nless x y = (case (x, y) of (N a, N b) \<Rightarrow> a < b | _ \<Rightarrow> False)"

definition nle :: "num \<Rightarrow> num \<Rightarrow> bool" where
  \<comment> \<open>\<^verbatim>\<open>x <= y\<close>\<close>
  "nle x y = (case (x, y) of (N a, N b) \<Rightarrow> a \<le> b | _ \<Rightarrow> False)"

definition msPerDay :: int where
  "msPerDay = 86400000"

definition days_from_civil :: "int \<Rightarrow> int \<Rightarrow> int \<Rightarrow> int" where
  \<comment> \<open>the day number of a date of the proleptic Gregorian calendar, month \<open>1..12\<close>\<close>
  "days_from_civil y0 m d =
     (let y = (if m \<le> 2 then y0 - 1 else y0);
          era = y div 400;
          yoe = y - era * 400;
          doy = (153 * (if m > 2 then m - 3 else m + 9) + 2) div 5 + d - 1;
          doe = yoe * 365 + yoe div 4 - yoe div 100 + doy
      in era * 146097 + doe - 719468)"

definition civil_from_days :: "int \<Rightarrow> int \<times> int \<times> int" where
  \<comment> \<open>year, month \<open>1..12\<close> and day of the month of a day number\<close>
  "civil_from_days z0 =
     (let z = z0 + 719468;
          era = z div 146097;
          doe = z - era * 146097;
          yoe = (doe - doe div 1460 + doe div 36524 - doe div 146096) div 365;
          doy = doe - (365 * yoe + yoe div 4 - yoe div 100);
          mp = (5 * doy + 2) div 153;
          d = doy - (153 * mp + 2) div 5 + 1;
          m = (if mp < 10 then mp + 3 else mp - 9);
          y = yoe + era * 400
      in (if m \<le> 2 then y + 1 else y, m, d))"

definition TimeClip :: "int \<Rightarrow> num" where
  "TimeClip t = (if \<bar>t\<bar> \<le> 8640000000000000 then N t else NaN)"

definition MakeDay :: "int \<Rightarrow> int \<Rightarrow> int \<Rightarrow> num" where
  \<comment> \<open>months beyond \<open>0..11\<close> carry into the year, days beyond the month into the
     neighbouring months; the engine (V8) gives \<^verbatim>\<open>NaN\<close> for a year outside
     \<open>-1000000..1000000\<close> and for a month outside \<open>-10000000..10000000\<close>\<close>
  "MakeDay year month dt =
     (if \<bar>year\<bar> \<le> 1000000 \<and> \<bar>month\<bar> \<le> 10000000 then
        (let ym = year + month div 12; mn = month mod 12
         in N (days_from_civil ym (mn + 1) 1 + dt - 1))
      else NaN)"

definition utcDate :: "num \<Rightarrow> num \<Rightarrow> num \<Rightarrow> date" where
  \<comment> \<open>\<^verbatim>\<open>new Date(Date.UTC(y, m, d, 0, 0, 0))\<close>\<close>
  "utcDate y m d =
     (case (y, m, d) of
        (N yv, N mv, N dv) \<Rightarrow>
          (let yr = (if 0 \<le> yv \<and> yv \<le> 99 then 1900 + yv else yv)
           in case MakeDay yr mv dv of
                N day \<Rightarrow> TimeClip (day * msPerDay)
              | NaN \<Rightarrow> NaN)
      | _ \<Rightarrow> NaN)"

definition getUTCFullYear :: "date \<Rightarrow> num" where
  "getUTCFullYear t = nmap (\<lambda>ms. fst (civil_from_days (ms div msPerDay))) t"

definition getUTCMonth :: "date \<Rightarrow> num" where
  "getUTCMonth t = nmap (\<lambda>ms. fst (snd (civil_from_days (ms div msPerDay))) - 1) t"

definition getUTCDate :: "date \<Rightarrow> num" where
  "getUTCDate t = nmap (\<lambda>ms. snd (snd (civil_from_days (ms div msPerDay)))) t"

definition getUTCDay :: "date \<Rightarrow> num" where
  "getUTCDay t = nmap (\<lambda>ms. (ms div msPerDay + 4) mod 7) t"

definition monthStartUTC :: "num \<Rightarrow> num \<Rightarrow> date" where
  "monthStartUTC y m = utcDate y m (N 1)"

definition monthEndUTC :: "num \<Rightarrow> num \<Rightarrow> date" where
  "monthEndUTC y m = utcDate y (nmap (\<lambda>v. v + 1) m) (N 0)"

definition toUTC00 :: "date \<Rightarrow> date" where
  \<comment> \<open>\<^verbatim>\<open>x.setUTCHours(0,0,0,0)\<close> on a copy\<close>
  "toUTC00 d = (case d of N ms \<Rightarrow> TimeClip ((ms div msPerDay) * msPerDay) | NaN \<Rightarrow> NaN)"

subsection \<open>Parsing\<close>

definition digits_value :: "jsstring \<Rightarrow> nat" where
  "digits_value ds = foldl (\<lambda>acc c. acc * 10 + (c - 48)) 0 ds"

definition parseInt :: "jsstring \<Rightarrow> num" where
  \<comment> \<open>\<^verbatim>\<open>parseInt(s, 10)\<close>\<close>
  "parseInt s =
     (let t = dropWhile is_space s;
          neg = (case t of [] \<Rightarrow> False | c # cs \<Rightarrow> c = 45);
          u = (case t of [] \<Rightarrow> [] | c # cs \<Rightarrow> if c = 45 \<or> c = 43 then cs else t);
          ds = takeWhile is_digit u
      in if ds = [] then NaN
         else N (if neg then - int (digits_value ds) else int (digits_value ds)))"

definition parseInt_opt :: "jsstring option \<Rightarrow> num" where
  \<comment> \<open>\<^verbatim>\<open>parseInt(undefined, 10)\<close> is \<^verbatim>\<open>NaN\<close>\<close>
  "parseInt_opt s = (case s of None \<Rightarrow> NaN | Some v \<Rightarrow> parseInt v)"

function show_nat :: "nat \<Rightarrow> jsstring" where
  \<comment> \<open>a number in a template literal: its decimal digits (what JavaScript prints up to
     \<open>10^21\<close>)\<close>
  "show_nat n = (if n < 10 then [48 + n] else show_nat (n div 10) @ [48 + n mod 10])"
  by pat_completeness auto
termination
  by (relation "measure id") auto

definition show_int :: "int \<Rightarrow> jsstring" where
  "show_int i = (if i < 0 then 45 # show_nat (nat (- i)) else show_nat (nat i))"

definition MONTHS :: "(jsstring \<times> int) list" where
  "MONTHS =
     [(js ''january'', 0), (js ''february'', 1), (js ''march'', 2), (js ''april'', 3),
      (js ''may'', 4), (js ''june'', 5), (js ''july'', 6), (js ''august'', 7),
      (js ''september'', 8), (js ''october'', 9), (js ''november'', 10), (js ''december'', 11)]"

definition lookup_MONTHS :: "jsstring \<Rightarrow> num option" where
  \<comment> \<open>\<^verbatim>\<open>MONTHS[key]\<close>: \<open>None\<close> is \<^verbatim>\<open>undefined\<close>. A property inherited from
     \<^verbatim>\<open>Object.prototype\<close> is a function or an object: neither \<^verbatim>\<open>null\<close> nor, for
     \<^verbatim>\<open>Number.isNaN\<close>, a \<^verbatim>\<open>NaN\<close>, but \<^verbatim>\<open>NaN\<close> wherever it is used as a number\<close>
  "lookup_MONTHS key =
     (case map_of MONTHS key of
        Some i \<Rightarrow> Some (N i)
      | None \<Rightarrow> if key \<in> set object_prototype_names then Some NaN else None)"

definition rx_ordinal :: rx where
  \<comment> \<open>\<^verbatim>\<open>/\b(\d{1,2})(st|nd|rd|th)\b/gi\<close>\<close>
  "rx_ordinal =
     seqs [WordB, Grp 1 (Seq (Cls is_digit) (Opt (Cls is_digit))),
           Grp 2 (alts [lit_i ''st'', lit_i ''nd'', lit_i ''rd'', lit_i ''th'']), WordB]"

definition stripOrdinals :: "jsstring \<Rightarrow> jsstring" where
  "stripOrdinals s =
     replace_all rx_ordinal (\<lambda>caps. case group caps 1 of Some g \<Rightarrow> g | None \<Rightarrow> []) s"

datatype field = Undefined | Null | Str jsstring

definition nth_opt :: "'a list \<Rightarrow> nat \<Rightarrow> 'a option" where
  \<comment> \<open>\<^verbatim>\<open>xs[i]\<close>: \<open>None\<close> is \<^verbatim>\<open>undefined\<close>\<close>
  "nth_opt xs i = (if i < length xs then Some (xs ! i) else None)"

definition parseLooseDate :: "field \<Rightarrow> date option" where
  \<comment> \<open>\<open>None\<close> is \<^verbatim>\<open>null\<close>\<close>
  "parseLooseDate englishDateStr =
     (case englishDateStr of
        Str s \<Rightarrow>
          if s = [] then None
          else
            let clean = trim (filter (\<lambda>c. c \<noteq> 44) (stripOrdinals s));
                parts = filter (\<lambda>p. p \<noteq> []) (split_on 32 clean);
                off = (if length parts \<ge> 4 \<and> parseInt_opt (nth_opt parts 0) = NaN then 1 else 0);
                day = parseInt_opt (nth_opt parts off);
                month = (case nth_opt parts (off + 1) of
                           None \<Rightarrow> None
                         | Some m \<Rightarrow> lookup_MONTHS (toLowerCase m));
                year = parseInt_opt (nth_opt parts (off + 2))
            in (case month of
                  None \<Rightarrow> None
                | Some mv \<Rightarrow> if day = NaN \<or> year = NaN then None else Some (utcDate year mv day))
      | _ \<Rightarrow> None)"

subsection \<open>The date window\<close>

record window =
  start :: "date option"
  end' :: "date option"
  label :: jsstring

definition rx_anytime :: rx where
  \<comment> \<open>\<^verbatim>\<open>/\bany\s*time\b|\banytime\b|\bwhenever\b/\<close>\<close>
  "rx_anytime =
     alts [seqs [WordB, lit ''any'', Star is_space, lit ''time'', WordB],
           wb ''anytime'', wb ''whenever'']"

definition rx_next_week :: rx where
  \<comment> \<open>\<^verbatim>\<open>/next\s*week/\<close>\<close>
  "rx_next_week = seqs [lit ''next'', Star is_space, lit ''week'']"

definition rx_in_weeks :: rx where
  \<comment> \<open>\<^verbatim>\<open>/in\s*(\d+)\s*weeks?/\<close>\<close>
  "rx_in_weeks =
     seqs [lit ''in'', Star is_space, Grp 1 (Plus is_digit), Star is_space, lit ''week'',
           Opt (lit ''s'')]"

definition rx_next_weeks :: rx where
  \<comment> \<open>\<^verbatim>\<open>/next\s*(\d+)\s*weeks?/\<close>\<close>
  "rx_next_weeks =
     seqs [lit ''next'', Star is_space, Grp 1 (Plus is_digit), Star is_space, lit ''week'',
           Opt (lit ''s'')]"

definition dayMonthRe :: rx where
  \<comment> \<open>\<^verbatim>\<open>/\b(after|later than|from)\s+(\d{1,2})(st|nd|rd|th)?\s+(january|...|december)\b/\<close>\<close>
  "dayMonthRe =
     seqs [WordB, Grp 1 (alts [lit ''after'', lit ''later than'', lit ''from'']),
           Plus is_space, Grp 2 (Seq (Cls is_digit) (Opt (Cls is_digit))),
           Opt (Grp 3 (alts [lit ''st'', lit ''nd'', lit ''rd'', lit ''th''])),
           Plus is_space,
           Grp 4 (alts [lit ''january'', lit ''february'', lit ''march'', lit ''april'',
                        lit ''may'', lit ''june'', lit ''july'', lit ''august'',
                        lit ''september'', lit ''october'', lit ''november'',
                        lit ''december'']),
           WordB]"

definition rx_end_of :: rx where
  \<comment> \<open>\<^verbatim>\<open>/end of (\w+)/\<close>\<close>
  "rx_end_of = seqs [lit ''end of '', Grp 1 (Plus is_word)]"

definition rollover :: "num \<Rightarrow> date \<Rightarrow> num" where
  \<comment> \<open>\<^verbatim>\<open>NOW.getUTCFullYear() + (month < NOW.getUTCMonth() ? 1 : 0)\<close>\<close>
  "rollover month NOW =
     nmap (\<lambda>y. y + (if nless month (getUTCMonth NOW) then 1 else 0)) (getUTCFullYear NOW)"

definition nadd :: "num \<Rightarrow> num \<Rightarrow> num" where
  "nadd x y = (case (x, y) of (N a, N b) \<Rightarrow> N (a + b) | _ \<Rightarrow> NaN)"

definition show_num :: "num \<Rightarrow> jsstring" where
  "show_num x = (case x of N v \<Rightarrow> show_int v | NaN \<Rightarrow> js ''NaN'')"

definition plus_days :: "date \<Rightarrow> num \<Rightarrow> date" where
  \<comment> \<open>\<^verbatim>\<open>utcDate(s.getUTCFullYear(), s.getUTCMonth(), s.getUTCDate() + k)\<close>\<close>
  "plus_days s k = utcDate (getUTCFullYear s) (getUTCMonth s) (nadd (getUTCDate s) k)"

definition normalizeDateWindow :: "jsstring \<Rightarrow> date \<Rightarrow> window" where
  "normalizeDateWindow nlText now =
     (let NOW = toUTC00 now in
      if nlText = [] then
        \<lparr>start = Some NOW, end' = Some (plus_days NOW (N 56)), label = js ''next 8 weeks''\<rparr>
      else
        let q = trim (toLowerCase nlText) in
        if rtest rx_anytime q then
          \<lparr>start = Some NOW,
           end' = Some (utcDate (nmap (\<lambda>y. y + 1) (getUTCFullYear NOW)) (getUTCMonth NOW)
                          (getUTCDate NOW)),
           label = js ''anytime (next 12 months)''\<rparr>
        else if rtest (wb ''this month'') q then
          (let y = getUTCFullYear NOW; m = getUTCMonth NOW in
           \<lparr>start = Some (monthStartUTC y m), end' = Some (monthEndUTC y m),
            label = js ''this month''\<rparr>)
        else if rtest (wb ''next month'') q then
          (let y0 = getUTCFullYear NOW; m0 = getUTCMonth NOW;
               m = nmap (\<lambda>v. (v + 1) mod 12) m0;
               y = nmap (\<lambda>v. v + (if m0 = N 11 then 1 else 0)) y0 in
           \<lparr>start = Some (monthStartUTC y m), end' = Some (monthEndUTC y m),
            label = js ''next month''\<rparr>)
        else if rtest rx_next_week q then
          (let dow = (case getUTCDay NOW of N v \<Rightarrow> (if v = 0 then 7 else v) | NaN \<Rightarrow> 7);
               delta0 = (8 - dow) mod 7;
               delta = (if delta0 = 0 then 7 else delta0);
               s = plus_days NOW (N delta);
               e = plus_days s (N 6) in
           \<lparr>start = Some s, end' = Some e, label = js ''next week''\<rparr>)
        else
          (case rmatch_groups rx_in_weeks q of
             Some inWeeks \<Rightarrow>
               (let n = parseInt_opt (group inWeeks 1);
                    s = plus_days NOW (nmap (\<lambda>v. v * 7) n);
                    e = plus_days s (N 6) in
                \<lparr>start = Some s, end' = Some e,
                 label = js ''in '' @ show_num n @ js '' week(s)''\<rparr>)
           | None \<Rightarrow>
          (case rmatch_groups rx_next_weeks q of
             Some nextWeeks \<Rightarrow>
               (let n = parseInt_opt (group nextWeeks 1) in
                \<lparr>start = Some NOW, end' = Some (plus_days NOW (nmap (\<lambda>v. v * 7) n)),
                 label = js ''next '' @ show_num n @ js '' week(s)''\<rparr>)
           | None \<Rightarrow>
          (case rmatch_groups dayMonthRe q of
             Some mDM \<Rightarrow>
               (let rel = (case group mDM 1 of Some g \<Rightarrow> g | None \<Rightarrow> []);
                    day = parseInt_opt (group mDM 2);
                    monthStr = (case group mDM 4 of Some g \<Rightarrow> g | None \<Rightarrow> []);
                    month = (case lookup_MONTHS monthStr of Some v \<Rightarrow> v | None \<Rightarrow> NaN);
                    year = rollover month NOW;
                    baseDay = (if rel = js ''from'' then day else nmap (\<lambda>d. d + 1) day);
                    s = utcDate year month baseDay;
                    e = monthEndUTC year month in
                \<lparr>start = Some s, end' = Some e,
                 label = rel @ js '' '' @ show_num day @ js '' '' @ monthStr\<rparr>)
           | None \<Rightarrow>
          (let endOf = rmatch_groups rx_end_of q;
               mKey = (case endOf of Some g \<Rightarrow> (case group g 1 of Some k \<Rightarrow> k | None \<Rightarrow> [])
                       | None \<Rightarrow> []);
               mVal = (case endOf of Some g \<Rightarrow> lookup_MONTHS mKey | None \<Rightarrow> None) in
           case mVal of
             Some mv \<Rightarrow>
               (let y = rollover mv NOW in
                \<lparr>start = Some (utcDate y mv (N 25)), end' = Some (monthEndUTC y mv),
                 label = js ''end of '' @ mKey\<rparr>)
           | None \<Rightarrow>
          (case find (\<lambda>(m, v). str_includes q m) MONTHS of
             Some (mKey, mVal) \<Rightarrow>
               (let y = rollover (N mVal) NOW in
                \<lparr>start = Some (monthStartUTC y (N mVal)), end' = Some (monthEndUTC y (N mVal)),
                 label = mKey\<rparr>)
           | None \<Rightarrow>
               \<lparr>start = Some NOW, end' = Some (plus_days NOW (N 56)),
                label = js ''next 8 weeks''\<rparr>))))))"

section \<open>lib/products.js\<close>

text \<open>
  A row of the catalogue. A field of a row is a string, \<^verbatim>\<open>null\<close>, or absent
  (\<^verbatim>\<open>undefined\<close>); a number of the feed is modelled by the string that
  \<^verbatim>\<open>String\<close> makes of it.
\<close>

record product =
  prod_id :: field
  name :: field
  start_date :: field
  end_date :: field
  dates_list :: field
  price :: field
  available_spaces :: field
  link :: field

definition or_empty :: "field \<Rightarrow> jsstring" where
  \<comment> \<open>\<^verbatim>\<open>f || ""\<close>, also \<^verbatim>\<open>f ?? ""\<close> and \<^verbatim>\<open>String(f || "")\<close>\<close>
  "or_empty f = (case f of Str s \<Rightarrow> s | _ \<Rightarrow> [])"

definition template :: "field \<Rightarrow> jsstring" where
  \<comment> \<open>a field inside a template literal\<close>
  "template f = (case f of Str s \<Rightarrow> s | Null \<Rightarrow> js ''null'' | Undefined \<Rightarrow> js ''undefined'')"

definition field_truthy :: "field \<Rightarrow> bool" where
  "field_truthy f = (or_empty f \<noteq> [])"

text \<open>
  \<^verbatim>\<open>Number(s)\<close> for a string of digits and dots, as an exact decimal: \<open>None\<close> is
  \<^verbatim>\<open>NaN\<close>. The rounding to a double is not part of this model. A decimal of
  \<open>2^1024 - 2^970\<close> or more is \<^verbatim>\<open>Infinity\<close> as a double, which is not finite:
  \<^verbatim>\<open>toNumericPrice\<close> returns \<open>0\<close> for it.
\<close>

definition Number_of :: "jsstring \<Rightarrow> rat option" where
  "Number_of s =
     (case split_on 46 s of
        [a] \<Rightarrow> Some (of_nat (digits_value a))
      | [a, b] \<Rightarrow>
          if a = [] \<and> b = [] then None
          else Some (of_nat (digits_value a) + of_nat (digits_value b) / 10 ^ length b)
      | _ \<Rightarrow> None)"

definition toNumericPrice :: "field \<Rightarrow> rat" where
  "toNumericPrice p =
     (case Number_of (filter (\<lambda>c. is_digit c \<or> c = 46) (or_empty p)) of
        Some n \<Rightarrow> if n < 2 ^ 1024 - 2 ^ 970 then n else 0
      | None \<Rightarrow> 0)"

definition withinRange :: "field \<Rightarrow> date option \<Rightarrow> date option \<Rightarrow> bool" where
  "withinRange dateStr st en =
     (if st = None \<and> en = None then True
      else
        (case parseLooseDate dateStr of
           None \<Rightarrow> False
         | Some d \<Rightarrow>
             (let s = map_option toUTC00 st; e = map_option toUTC00 en in
              if (case s of Some sv \<Rightarrow> nless d sv | None \<Rightarrow> False) then False
              else if (case e of Some ev \<Rightarrow> nless ev d | None \<Rightarrow> False) then False
              else True)))"

subsection \<open>Location\<close>

definition loc_norm :: "jsstring \<Rightarrow> jsstring" where
  \<comment> \<open>the function \<^verbatim>\<open>norm\<close> of lib/products.js\<close>
  "loc_norm s =
     (if s = [] then []
      else trim (replace_runs is_space [32]
             (map (\<lambda>c. if c = 40 \<or> c = 41 \<or> c = 44 then 32 else c)
               (filter (\<lambda>c. \<not> is_combining c) (nfd (toLowerCase s))))))"

definition CITY_ALIASES :: "(jsstring \<times> jsstring list) list" where
  "CITY_ALIASES =
     [(js ''online'', [js ''online'', js ''virtual'', js ''instructor led'', js ''instructor-led'']),
      (js ''chelmsford'', [js ''chelmsford'']),
      (js ''peterborough'', [js ''peterborough'']),
      (js ''sheffield'', [js ''sheffield'']),
      (js ''crawley'', [js ''crawley'']),
      (js ''stratford'', [js ''stratford''])]"

definition detectLocationFacet :: "field \<Rightarrow> jsstring option" where
  "detectLocationFacet nm =
     (let raw = or_empty nm; n = loc_norm raw in
      if rtest (wb ''online'') n then Some (js ''online'')
      else
        let parts = filter (\<lambda>p. p \<noteq> []) (map trim (split_on 124 raw));
            middle = (if length parts \<ge> 3 then nth_opt parts 1 else None)
        in (case middle of
              Some m \<Rightarrow>
                if loc_norm m \<noteq> [] \<and> loc_norm m \<noteq> js ''venue tbc'' then Some m
                else map_option fst
                       (find (\<lambda>(city, als). \<exists>a \<in> set als. str_includes n (loc_norm a)) CITY_ALIASES)
            | None \<Rightarrow>
                map_option fst
                  (find (\<lambda>(city, als). \<exists>a \<in> set als. str_includes n (loc_norm a)) CITY_ALIASES)))"

definition matchLocation :: "field \<Rightarrow> field \<Rightarrow> error + bool" where
  "matchLocation userLocation productName =
     (if \<not> field_truthy userLocation then Inr True
      else
        let ul = loc_norm (or_empty userLocation) in
        if ul = [] \<or> ul = js ''any'' \<or> ul = js ''anywhere'' then Inr True
        else
          (case detectLocationFacet productName of
             None \<Rightarrow> Inr False
           | Some facet \<Rightarrow>
               if facet = [] then Inr False
               else
                 let f = loc_norm facet in
                 if ul = js ''online'' then Inr (f = js ''online'')
                 else if str_includes f ul \<or> str_includes ul f then Inr True
                 else
                   (case map_of CITY_ALIASES ul of
                      Some als \<Rightarrow>
                        if \<exists>a \<in> set als. str_includes f (loc_norm a) then Inr True
                        else if als = [] \<and> f = ul then Inr True
                        else Inr False
                    | None \<Rightarrow>
                        \<comment> \<open>an inherited property is no array: \<^verbatim>\<open>aliases.some\<close> is no function\<close>
                        if ul \<in> set object_prototype_names then Inl TypeError
                        else if f = ul then Inr True
                        else Inr False)))"

subsection \<open>Result items\<close>

record item =
  item_id :: field
  title :: field
  dates :: jsstring
  item_price :: field
  spaces :: field
  item_link :: field
  venueOrFormat :: jsstring
  startTS :: "int option"

definition make_item :: "product \<Rightarrow> int option \<Rightarrow> item" where
  \<comment> \<open>the object that \<^verbatim>\<open>mapItem\<close> returns, for a given \<open>startTS\<close>\<close>
  "make_item r ts =
     \<lparr>item_id = prod_id r, title = name r,
      dates =
        (if field_truthy (dates_list r) then or_empty (dates_list r)
         else or_empty (start_date r) @
              (if field_truthy (end_date r) then js '' - '' @ template (end_date r) else [])),
      item_price = price r, spaces = available_spaces r, item_link = link r,
      venueOrFormat = extractFormatOrVenue (or_empty (name r)), startTS = ts\<rparr>"

definition mapItem :: "product \<Rightarrow> error + item" where
  \<comment> \<open>\<open>startTS\<close> is the time value that \<^verbatim>\<open>toISOString\<close> prints;
     \<^verbatim>\<open>toISOString\<close> throws a \<^verbatim>\<open>RangeError\<close> on an invalid date\<close>
  "mapItem r =
     (case parseLooseDate (start_date r) of
        None \<Rightarrow> Inr (make_item r None)
      | Some (N t) \<Rightarrow> Inr (make_item r (Some t))
      | Some NaN \<Rightarrow> Inl RangeError)"

subsection \<open>Exceptions in callbacks\<close>

fun filterE :: "('a \<Rightarrow> error + bool) \<Rightarrow> 'a list \<Rightarrow> error + 'a list" where
  \<comment> \<open>\<^verbatim>\<open>xs.filter(p)\<close> for a callback that can throw\<close>
  "filterE p [] = Inr []"
| "filterE p (x # xs) =
     (case p x of
        Inl e \<Rightarrow> Inl e
      | Inr b \<Rightarrow>
          (case filterE p xs of
             Inl e \<Rightarrow> Inl e
           | Inr ys \<Rightarrow> Inr (if b then x # ys else ys)))"

fun mapE :: "('a \<Rightarrow> error + 'b) \<Rightarrow> 'a list \<Rightarrow> error + 'b list" where
  \<comment> \<open>\<^verbatim>\<open>xs.map(f)\<close> for a callback that can throw\<close>
  "mapE f [] = Inr []"
| "mapE f (x # xs) =
     (case f x of
        Inl e \<Rightarrow> Inl e
      | Inr y \<Rightarrow> (case mapE f xs of Inl e \<Rightarrow> Inl e | Inr ys \<Rightarrow> Inr (y # ys)))"

definition bindE :: "error + 'a \<Rightarrow> ('a \<Rightarrow> error + 'b) \<Rightarrow> error + 'b" where
  \<comment> \<open>one statement after another: the first exception ends the call\<close>
  "bindE m f = (case m of Inl e \<Rightarrow> Inl e | Inr v \<Rightarrow> f v)"

subsection \<open>Search\<close>

record params =
  courseTerm :: field
  location :: field
  dateRange :: "window option"
  includeRefresher :: "bool option"

definition family_and_ref :: "jsstring option \<Rightarrow> bool option \<Rightarrow> product \<Rightarrow> error + bool" where
  \<comment> \<open>\<^verbatim>\<open>isCourseMatchByFamily(name, family) && isRefresherMatch(name, r)\<close>\<close>
  "family_and_ref fam r p =
     (let nm = or_empty (name p) in
      case isCourseMatchByFamily nm fam of
        Inl e \<Rightarrow> Inl e
      | Inr v \<Rightarrow> Inr (truthy v \<and> isRefresherMatch nm r))"

definition in_date_range :: "window \<Rightarrow> product \<Rightarrow> bool" where
  \<comment> \<open>\<^verbatim>\<open>withinRange(p.start_date, [dateRange.start, dateRange.end])\<close>\<close>
  "in_date_range w p = withinRange (start_date p) (start w) (end' w)"

definition search_cmp :: "product \<Rightarrow> product \<Rightarrow> rat" where
  \<comment> \<open>the comparator of the search; a missing date counts as \<^verbatim>\<open>Infinity\<close>, and an
     invalid date gives \<^verbatim>\<open>NaN\<close>, which the sort takes as \<open>0\<close>\<close>
  "search_cmp a b =
     (case (parseLooseDate (start_date a), parseLooseDate (start_date b)) of
        (Some (N x), Some (N y)) \<Rightarrow>
          if x \<noteq> y then of_int (x - y) else toNumericPrice (price a) - toNumericPrice (price b)
      | (None, None) \<Rightarrow> toNumericPrice (price a) - toNumericPrice (price b)
      | (None, Some (N y)) \<Rightarrow> 1
      | (Some (N x), None) \<Rightarrow> - 1
      | _ \<Rightarrow> 0)"

definition dedup_key :: "product \<Rightarrow> jsstring" where
  \<comment> \<open>\<^verbatim>\<open>`${r.name}::${r.start_date}`\<close>\<close>
  "dedup_key r = template (name r) @ js ''::'' @ template (start_date r)"

fun dedup :: "jsstring list \<Rightarrow> product list \<Rightarrow> product list" where
  \<comment> \<open>the filter over the set \<^verbatim>\<open>seen\<close>\<close>
  "dedup seen [] = []"
| "dedup seen (r # rs) =
     (if dedup_key r \<in> set seen then dedup seen rs else r # dedup (dedup_key r # seen) rs)"

definition searchCoursesInMemory :: "product list \<Rightarrow> params \<Rightarrow> error + item list" where
  "searchCoursesInMemory products ps =
     (let r = expandKeywords (or_empty (courseTerm ps));
          effectiveRefresher =
            (case includeRefresher ps of Some b \<Rightarrow> Some b | None \<Rightarrow> refresher r)
      in bindE
           (filterE (\<lambda>p.
               bindE (family_and_ref (family r) effectiveRefresher p) (\<lambda>ok.
                 if \<not> ok then Inr False
                 else if (case dateRange ps of
                            Some w \<Rightarrow> (start w \<noteq> None \<or> end' w \<noteq> None) \<and> \<not> in_date_range w p
                          | None \<Rightarrow> False)
                 then Inr False
                 else matchLocation (location ps) (Str (or_empty (name p)))))
             products)
           (\<lambda>results. mapE mapItem (dedup [] (js_sort search_cmp results))))"

subsection \<open>Diagnostics\<close>

record diagnostics =
  diag_family :: "jsstring option"
  diag_refresher :: "bool option"
  hasAnyFamilyRef :: bool
  hasInDateAnyLoc :: bool
  hasInLocAnyDate :: bool
  nearestInLocation :: "item list"
  nearestAnywhere :: "item list"
  standardAlt :: "item list"

definition date_cmp :: "product \<Rightarrow> product \<Rightarrow> rat" where
  \<comment> \<open>\<^verbatim>\<open>parseLooseDate(a.start_date) - parseLooseDate(b.start_date)\<close>: as a number
     \<^verbatim>\<open>null\<close> is \<open>0\<close>\<close>
  "date_cmp a b =
     (let ta = (case parseLooseDate (start_date a) of None \<Rightarrow> N 0 | Some d \<Rightarrow> d);
          tb = (case parseLooseDate (start_date b) of None \<Rightarrow> N 0 | Some d \<Rightarrow> d)
      in case (ta, tb) of (N x, N y) \<Rightarrow> of_int (x - y) | _ \<Rightarrow> 0)"

definition diagnoseSearch :: "date \<Rightarrow> product list \<Rightarrow> params \<Rightarrow> error + diagnostics" where
  \<comment> \<open>\<open>clock\<close> is what \<^verbatim>\<open>new Date()\<close> returns inside \<^verbatim>\<open>todayUTC\<close>\<close>
  "diagnoseSearch clock products ps =
     (let r = expandKeywords (or_empty (courseTerm ps));
          effectiveRefresher =
            (case includeRefresher ps of Some b \<Rightarrow> Some b | None \<Rightarrow> refresher r);
          today = toUTC00 clock
      in
      bindE (filterE (family_and_ref (family r) effectiveRefresher) products) (\<lambda>matchesFamilyAndRef.
        let inAnyLocThisDate =
              filter (\<lambda>p. case dateRange ps of None \<Rightarrow> True | Some w \<Rightarrow> in_date_range w p)
                matchesFamilyAndRef
        in
        bindE (filterE (\<lambda>p. matchLocation (location ps) (name p)) matchesFamilyAndRef)
          (\<lambda>inAnyDateThisLoc.
        let future =
              filter (\<lambda>p. case parseLooseDate (start_date p) of
                             None \<Rightarrow> False
                           | Some d \<Rightarrow> nle today d)
                matchesFamilyAndRef
        in
        bindE (filterE (\<lambda>p. matchLocation (location ps) (name p)) future) (\<lambda>futureInLocation.
        bindE (mapE mapItem (take 3 (js_sort date_cmp futureInLocation))) (\<lambda>nearestInLoc.
        bindE (mapE mapItem (take 3 (js_sort date_cmp future))) (\<lambda>nearestAny.
        let altRef = map_option Not effectiveRefresher in
        bindE
          (filterE (\<lambda>p.
              bindE (family_and_ref (family r) altRef p) (\<lambda>ok.
                if \<not> ok then Inr False
                else if (case dateRange ps of None \<Rightarrow> False | Some w \<Rightarrow> \<not> in_date_range w p)
                then Inr False
                else matchLocation (location ps) (Str (or_empty (name p)))))
            products)
          (\<lambda>alt.
        bindE (mapE mapItem (take 3 (js_sort date_cmp alt))) (\<lambda>stdAlt.
        Inr \<lparr>diag_family = family r, diag_refresher = effectiveRefresher,
             hasAnyFamilyRef = (matchesFamilyAndRef \<noteq> []),
             hasInDateAnyLoc = (inAnyLocThisDate \<noteq> []),
             hasInLocAnyDate = (inAnyDateThisLoc \<noteq> []),
             nearestInLocation = nearestInLoc,
             nearestAnywhere = nearestAny,
             standardAlt = stdAlt\<rparr>))))))))"

section \<open>pages/api/ask.js: the order in which a failure is reported\<close>




section \<open>Notions of the statements and proofs\<close>

text \<open>The strings that \<^verbatim>\<open>norm\<close> returns.\<close>

fun single_spaced :: "jsstring \<Rightarrow> bool" where
  "single_spaced [] = True"
| "single_spaced [c] = True"
| "single_spaced (a # b # cs) = (\<not> (is_space a \<and> is_space b) \<and> single_spaced (b # cs))"

definition normal :: "jsstring \<Rightarrow> bool" where
  "normal t =
     ((\<forall>c \<in> set t. norm_keep c) \<and> single_spaced t \<and>
      (t = [] \<or> (\<not> is_space (hd t) \<and> \<not> is_space (last t))))"

text \<open>
  The entries of \<^verbatim>\<open>ALIAS_TO_FAMILY\<close> written out, as ASCII literals: the normalised
  aliases in the order of \<^verbatim>\<open>MAP\<close>, each with the base family of its entry.
\<close>

definition alias_table :: "(string \<times> string) list" where
  "alias_table =
    [(''smsts'', ''SMSTS''), (''citb smsts'', ''SMSTS''),
     (''site management safety training scheme'', ''SMSTS''),
     (''site managers safety training scheme'', ''SMSTS''),
     (''site manager safety training scheme'', ''SMSTS''),
     (''site management safety'', ''SMSTS''), (''smsts course'', ''SMSTS''),
     (''smsts refresher'', ''SMSTS''), (''smsts r'', ''SMSTS''),
     (''citb smsts refresher'', ''SMSTS''),
     (''site management safety training scheme refresher'', ''SMSTS''),
     (''site managers safety training scheme refresher'', ''SMSTS''),
     (''smsts renewal'', ''SMSTS''), (''smsts update'', ''SMSTS''),
     (''smsts refresh'', ''SMSTS''), (''sssts'', ''SSSTS''), (''citb sssts'', ''SSSTS''),
     (''site supervisors safety training scheme'', ''SSSTS''),
     (''site supervisor safety training scheme'', ''SSSTS''),
     (''site supervisors safety'', ''SSSTS''),
     (''supervisors safety training scheme'', ''SSSTS''), (''sssts course'', ''SSSTS''),
     (''sssts refresher'', ''SSSTS''), (''sssts r'', ''SSSTS''),
     (''citb sssts refresher'', ''SSSTS''),
     (''site supervisors safety training scheme refresher'', ''SSSTS''),
     (''sssts renewal'', ''SSSTS''), (''sssts update'', ''SSSTS''),
     (''sssts refresh'', ''SSSTS''), (''hsa'', ''HSA''),
     (''health and safety awareness'', ''HSA''), (''health & safety awareness'', ''HSA''),
     (''health and safety awareness courses'', ''HSA''), (''health and safety'', ''HSA''),
     (''health & safety'', ''HSA''), (''h&s'', ''HSA''), (''hsa course'', ''HSA''),
     (''citb health and safety awareness'', ''HSA''), (''citb hsa'', ''HSA''),
     (''twc'', ''TWC''), (''citb twc'', ''TWC''), (''temporary works coordinator'', ''TWC''),
     (''temporary works co ordinator'', ''TWC''),
     (''temporary works coordinator course'', ''TWC''),
     (''temporary works co ordinator course'', ''TWC''), (''tw coordinator'', ''TWC''),
     (''tw co ordinator'', ''TWC''), (''twc course'', ''TWC''), (''twc refresher'', ''TWC''),
     (''citb twc refresher'', ''TWC''), (''temporary works coordinator refresher'', ''TWC''),
     (''temporary works co ordinator refresher'', ''TWC''), (''twc renewal'', ''TWC''),
     (''twc update'', ''TWC''), (''twc refresh'', ''TWC''), (''tws'', ''TWS''),
     (''citb tws'', ''TWS''), (''temporary works supervisor'', ''TWS''),
     (''temporary work supervisor'', ''TWS''), (''tw supervisor'', ''TWS''),
     (''tws course'', ''TWS''), (''nebosh general'', ''NEBOSH General''),
     (''nebosh ngc'', ''NEBOSH General''),
     (''nebosh national general certificate'', ''NEBOSH General''),
     (''nebosh certificate general'', ''NEBOSH General''),
     (''nebosh health and safety'', ''NEBOSH General''), (''nebosh h&s'', ''NEBOSH General''),
     (''nebosh'', ''NEBOSH General''), (''nebosh construction'', ''NEBOSH Construction''),
     (''nebosh ncc'', ''NEBOSH Construction''),
     (''nebosh national certificate in construction'', ''NEBOSH Construction''),
     (''nebosh construction certificate'', ''NEBOSH Construction''),
     (''nebosh construction safety'', ''NEBOSH Construction''),
     (''iosh managing safely'', ''IOSH Managing Safely''),
     (''managing safely'', ''IOSH Managing Safely''), (''iosh ms'', ''IOSH Managing Safely''),
     (''iosh manage safely'', ''IOSH Managing Safely''),
     (''iosh managing'', ''IOSH Managing Safely''),
     (''iosh working safely'', ''IOSH Working Safely''),
     (''working safely'', ''IOSH Working Safely''), (''iosh ws'', ''IOSH Working Safely''),
     (''iosh working'', ''IOSH Working Safely''), (''iema'', ''IEMA''),
     (''iema foundation'', ''IEMA''), (''iema environmental management'', ''IEMA''),
     (''iema sustainability'', ''IEMA''), (''iema course'', ''IEMA''),
     (''environmental'', ''IEMA''), (''environmental management'', ''IEMA''),
     (''foundation certificate in environmental management'', ''IEMA''),
     (''foundation in environmental management'', ''IEMA''), (''mhfa'', ''MHFA''),
     (''mental health first aid'', ''MHFA''), (''mental health first aid course'', ''MHFA''),
     (''mhfa course'', ''MHFA''), (''mhfa england'', ''MHFA''),
     (''mental health first aid 2 day'', ''MHFA''), (''mhfa 2 day'', ''MHFA''),
     (''mhfa two day'', ''MHFA''), (''first aid'', ''MHFA''), (''seats'', ''SEATS''),
     (''site environmental awareness training scheme'', ''SEATS''),
     (''site environmental awareness'', ''SEATS''), (''citb seats'', ''SEATS''),
     (''eusr water hygiene am'', ''EUSR Water Hygiene AM''),
     (''water hygiene am session'', ''EUSR Water Hygiene AM''),
     (''am water hygiene'', ''EUSR Water Hygiene AM''),
     (''eusr am'', ''EUSR Water Hygiene AM''),
     (''am session water hygiene'', ''EUSR Water Hygiene AM''),
     (''water hygiene morning'', ''EUSR Water Hygiene AM''),
     (''morning water hygiene'', ''EUSR Water Hygiene AM''),
     (''eusr water hygiene pm'', ''EUSR Water Hygiene PM''),
     (''water hygiene pm session'', ''EUSR Water Hygiene PM''),
     (''pm water hygiene'', ''EUSR Water Hygiene PM''),
     (''eusr pm'', ''EUSR Water Hygiene PM''),
     (''pm session water hygiene'', ''EUSR Water Hygiene PM''),
     (''water hygiene afternoon'', ''EUSR Water Hygiene PM''),
     (''afternoon water hygiene'', ''EUSR Water Hygiene PM'')]"

abbreviation (input) js_pair :: "string \<times> string \<Rightarrow> jsstring \<times> jsstring" where
  "js_pair \<equiv> \<lambda>(a, f). (js a, js f)"

definition first_alias :: "string \<Rightarrow> (string \<times> string) option" where
  \<comment> \<open>the loop over the aliases, on ASCII literals\<close>
  "first_alias q = find (\<lambda>(a, f). str_includes q a) alias_table"



text \<open>The keys of the object \<^verbatim>\<open>checks\<close>.\<close>

definition checks_keys :: "jsstring list" where
  "checks_keys = map fst (checks [])"

text \<open>
  The sessions that match the family and the refresher flag of a search, the sessions that
  start on or after a day, the item that \<^verbatim>\<open>mapItem\<close> makes of a session, and a
  diagnosis without the two fields that depend on the current day.
\<close>

definition effective_refresher :: "params \<Rightarrow> bool option" where
  "effective_refresher ps =
     (case includeRefresher ps of
        Some b \<Rightarrow> Some b
      | None \<Rightarrow> refresher (expandKeywords (or_empty (courseTerm ps))))"


definition at_location :: "params \<Rightarrow> product \<Rightarrow> bool" where
  "at_location ps p = (matchLocation (location ps) (name p) = Inr True)"

definition session_time :: "product \<Rightarrow> int option" where
  "session_time p = (case parseLooseDate (start_date p) of Some (N t) \<Rightarrow> Some t | _ \<Rightarrow> None)"


definition future_session :: "date \<Rightarrow> product \<Rightarrow> bool" where
  "future_session today p =
     (case parseLooseDate (start_date p) of None \<Rightarrow> False | Some d \<Rightarrow> nle today d)"

definition item_of :: "product \<Rightarrow> item" where
  "item_of p = make_item p (session_time p)"

definition clock_free :: "diagnostics \<Rightarrow> diagnostics" where
  "clock_free d = d\<lparr>nearestInLocation := [], nearestAnywhere := []\<rparr>"

text \<open>
  A catalogue of one session, on 20 August 2025 in Stratford, and a search for that
  family in Stratford in September 2025.
\<close>

definition hsa_session :: product where
  "hsa_session =
     \<lparr>prod_id = Str (js ''101''),
      name = Str (js ''Health and Safety Awareness | Stratford | 1 day''),
      start_date = Str (js ''Wed 20th August 2025''),
      end_date = Str (js ''Wed 20th August 2025''),
      dates_list = Undefined,
      price = Str (js ''150.00''),
      available_spaces = Str (js ''8''),
      link = Str (js ''/courses/hsa'')\<rparr>"

definition september_2025 :: window where
  "september_2025 =
     \<lparr>start = Some (N 1756684800000), end' = Some (N 1759190400000), label = js ''next month''\<rparr>"

definition hsa_query :: params where
  "hsa_query =
     \<lparr>courseTerm = Str (js ''hsa''), location = Str (js ''stratford''),
      dateRange = Some september_2025, includeRefresher = None\<rparr>"


text \<open>
  The names at which \<^verbatim>\<open>checks[family]?.()\<close> does not evaluate to
  \<^verbatim>\<open>undefined\<close>, for a family that is no key of \<^verbatim>\<open>checks\<close>: the call of the
  inherited property returns a value, or throws.
\<close>

definition shadowing_names :: "jsstring list" where
  "shadowing_names =
     [js ''constructor'', js ''toString'', js ''toLocaleString'', js ''valueOf'',
      js ''hasOwnProperty'', js ''isPrototypeOf'', js ''propertyIsEnumerable'',
      js ''__defineGetter__'', js ''__defineSetter__'', js ''__proto__'']"

text \<open>
  The edit distance of two strings, by its usual recursion: the least number of insertions,
  deletions and substitutions of one character that turn the one into the other. The row
  \<open>i\<close> of the table of \<^verbatim>\<open>levenshtein\<close> holds the distances of the prefix of length
  \<open>i\<close> to the prefixes of the other string.
\<close>

fun edit_distance :: "'a list \<Rightarrow> 'a list \<Rightarrow> nat" where
  "edit_distance [] ys = length ys"
| "edit_distance xs [] = length xs"
| "edit_distance (x # xs) (y # ys) =
     min (min (edit_distance xs (y # ys) + 1) (edit_distance (x # xs) ys + 1))
       (edit_distance xs ys + (if x = y then 0 else 1))"

definition lev_rows :: "'a list \<Rightarrow> 'a list \<Rightarrow> nat list" where
  "lev_rows P b = map (\<lambda>k. edit_distance P (take k b)) [1..<length b + 1]"

text \<open>
  Two rows that differ in name and in start date, with the same text
  \<^verbatim>\<open>`${r.name}::${r.start_date}`\<close>, and the parameters \<^verbatim>\<open>{}\<close>.
\<close>

definition row_1 :: product where
  "row_1 =
     \<lparr>prod_id = Undefined, name = Str (js ''A::B''), start_date = Str (js ''C''),
      end_date = Undefined, dates_list = Undefined, price = Undefined,
      available_spaces = Undefined, link = Undefined\<rparr>"

definition row_2 :: product where
  "row_2 =
     \<lparr>prod_id = Undefined, name = Str (js ''A''), start_date = Str (js ''B::C''),
      end_date = Undefined, dates_list = Undefined, price = Undefined,
      available_spaces = Undefined, link = Undefined\<rparr>"

definition no_filter :: params where
  "no_filter =
     \<lparr>courseTerm = Undefined, location = Undefined, dateRange = None, includeRefresher = None\<rparr>"

section \<open>The normaliser returns normal strings, and leaves them as they are\<close>

lemma single_spaced_Cons:
  "single_spaced (c # xs) = ((xs = [] \<or> \<not> (is_space c \<and> is_space (hd xs))) \<and> single_spaced xs)"
  by (cases xs) auto

lemma single_spaced_append:
  "single_spaced (xs @ ys) \<Longrightarrow> single_spaced xs \<and> single_spaced ys"
proof (induction xs rule: single_spaced.induct)
  case 1
  then show ?case by simp
next
  case (2 c)
  then show ?case by (cases ys) auto
next
  case (3 a b cs)
  then show ?case by auto
qed

lemma set_replace_runs:
  "set (replace_runs P r s) \<subseteq> set r \<union> {c \<in> set s. \<not> P c}"
proof (induction P r s rule: replace_runs.induct)
  case (1 P r)
  then show ?case by simp
next
  case (2 P r c cs)
  show ?case
  proof (cases "P c")
    case True
    have "set (dropWhile P cs) \<subseteq> set cs" by (rule set_dropWhileD[THEN subsetI])
    with 2 True show ?thesis by auto
  next
    case False
    with 2 show ?thesis by auto
  qed
qed

lemma replace_runs_head:
  "xs = [] \<or> \<not> P (hd xs) \<Longrightarrow>
   replace_runs P r xs = [] \<or> \<not> P (hd (replace_runs P r xs))"
  by (cases xs) auto

lemma single_spaced_replace_runs:
  "single_spaced (replace_runs is_space [32] s)"
proof (induction "is_space" "[32::nat]" s rule: replace_runs.induct)
  case 1
  then show ?case by simp
next
  case (2 c cs)
  show ?case
  proof (cases "is_space c")
    case True
    have "dropWhile is_space cs = [] \<or> \<not> is_space (hd (dropWhile is_space cs))"
      using hd_dropWhile by blast
    then have "replace_runs is_space [32] (dropWhile is_space cs) = [] \<or>
        \<not> is_space (hd (replace_runs is_space [32] (dropWhile is_space cs)))"
      by (rule replace_runs_head)
    with 2 True show ?thesis by (auto simp: single_spaced_Cons)
  next
    case False
    with 2 show ?thesis by (auto simp: single_spaced_Cons)
  qed
qed

lemma replace_runs_none:
  "\<forall>c \<in> set s. \<not> P c \<Longrightarrow> replace_runs P r s = s"
  by (induction s) auto

lemma replace_runs_single_spaced:
  "single_spaced s \<Longrightarrow> \<forall>c \<in> set s. is_space c \<longrightarrow> c = 32 \<Longrightarrow>
   replace_runs is_space [32] s = s"
proof (induction s)
  case Nil
  then show ?case by simp
next
  case (Cons c cs)
  from Cons.prems have ss: "single_spaced cs" by (simp add: single_spaced_Cons)
  with Cons have ih: "replace_runs is_space [32] cs = cs" by simp
  show ?case
  proof (cases "is_space c")
    case True
    with Cons.prems have c: "c = 32" by simp
    from Cons.prems(1) True have "cs = [] \<or> \<not> is_space (hd cs)"
      by (simp add: single_spaced_Cons)
    then have "dropWhile is_space cs = cs" by (cases cs) auto
    with True c ih show ?thesis by simp
  next
    case False
    with ih show ?thesis by simp
  qed
qed

lemma concat_map_fixed:
  "\<forall>c \<in> set s. f c = [c] \<Longrightarrow> concat (map f s) = s"
  by (induction s) auto

lemma trim_decomp:
  "dropWhile is_space s = trim s @ rev (takeWhile is_space (rev (dropWhile is_space s)))"
proof -
  let ?d = "dropWhile is_space s"
  have "rev (rev ?d) = rev (takeWhile is_space (rev ?d) @ dropWhile is_space (rev ?d))"
    by (simp only: takeWhile_dropWhile_id)
  then show ?thesis by (simp only: rev_rev_ident rev_append trim_def)
qed

lemma trim_prefix_suffix:
  "\<exists>us vs. s = us @ trim s @ vs"
proof -
  have "s = takeWhile is_space s @ dropWhile is_space s" by simp
  with trim_decomp[of s]
  have "s = takeWhile is_space s @ trim s @ rev (takeWhile is_space (rev (dropWhile is_space s)))"
    by simp
  then show ?thesis by blast
qed

lemma dropWhile_fixed:
  "xs = [] \<or> \<not> P (hd xs) \<Longrightarrow> dropWhile P xs = xs"
  by (cases xs) auto

lemma trim_fixed:
  assumes "s = [] \<or> (\<not> is_space (hd s) \<and> \<not> is_space (last s))"
  shows "trim s = s"
proof -
  from assms have d: "dropWhile is_space s = s" by (intro dropWhile_fixed) auto
  from assms have "rev s = [] \<or> \<not> is_space (hd (rev s))" by (auto simp: hd_rev)
  then have "dropWhile is_space (rev s) = rev s" by (rule dropWhile_fixed)
  with d show ?thesis by (simp add: trim_def)
qed

lemma trim_ends:
  "trim s = [] \<or> (\<not> is_space (hd (trim s)) \<and> \<not> is_space (last (trim s)))"
proof (cases "trim s = []")
  case True
  then show ?thesis by simp
next
  case False
  let ?d = "dropWhile is_space s"
  let ?e = "dropWhile is_space (rev ?d)"
  from False have e: "?e \<noteq> []" unfolding trim_def rev_is_Nil_conv .
  then have "\<not> is_space (hd ?e)" using hd_dropWhile by blast
  moreover have "last (trim s) = hd ?e" using e by (simp only: trim_def last_rev)
  ultimately have l: "\<not> is_space (last (trim s))" by simp
  have dn: "?d \<noteq> []"
  proof
    assume "?d = []"
    then have "?e = []" by (simp only: rev.simps dropWhile.simps)
    with e show False by (simp only: not_True_eq_False refl)
  qed
  then have hd: "\<not> is_space (hd ?d)" using hd_dropWhile by blast
  from trim_decomp[of s] False have "hd ?d = hd (trim s)" by (metis hd_append2)
  with hd l show ?thesis by simp
qed

lemma norm_keep_facts:
  assumes "norm_keep c"
  shows "lower_unit c = [c]" and "nfd_unit c = [c]" and "\<not> is_combining c"
    and "is_space c \<longrightarrow> c = 32"
  using assms
  by (auto simp: norm_keep_def lower_unit_def nfd_unit_def is_combining_def is_space_def is_digit_def)

lemma norm_normal: "normal t \<Longrightarrow> norm t = t"
proof -
  assume n: "normal t"
  then have k: "\<forall>c \<in> set t. norm_keep c" by (simp add: normal_def)
  have 1: "toLowerCase t = t"
    unfolding toLowerCase_def using k by (intro concat_map_fixed) (simp add: norm_keep_facts)
  have 2: "nfd t = t"
    unfolding nfd_def using k by (intro concat_map_fixed) (simp add: norm_keep_facts)
  have 3: "filter (\<lambda>c. \<not> is_combining c) t = t"
    using k by (simp add: norm_keep_facts)
  have 4: "replace_runs (\<lambda>c. \<not> norm_keep c) [32] t = t"
    using k by (intro replace_runs_none) simp
  have 5: "replace_runs is_space [32] t = t"
    using n k by (intro replace_runs_single_spaced) (auto simp: normal_def norm_keep_facts)
  have 6: "trim t = t"
    using n by (intro trim_fixed) (simp add: normal_def)
  show ?thesis by (simp add: norm_def 1 2 3 4 5 6)
qed

lemma normal_norm: "normal (norm x)"
proof -
  let ?A = "filter (\<lambda>c. \<not> is_combining c) (nfd (toLowerCase x))"
  let ?B = "replace_runs (\<lambda>c. \<not> norm_keep c) [32] ?A"
  let ?C = "replace_runs is_space [32] ?B"
  have n: "norm x = trim ?C" by (simp add: norm_def)
  have k32: "norm_keep 32" by (simp add: norm_keep_def)
  have kB: "\<forall>c \<in> set ?B. norm_keep c"
    using set_replace_runs[of "\<lambda>c. \<not> norm_keep c" "[32]" ?A] k32 by auto
  have kC: "\<forall>c \<in> set ?C. norm_keep c"
    using set_replace_runs[of is_space "[32]" ?B] kB k32 by auto
  obtain us vs where uv: "?C = us @ trim ?C @ vs" using trim_prefix_suffix by blast
  then have "set (trim ?C) \<subseteq> set ?C" by (metis Un_upper1 Un_upper2 set_append subset_trans)
  with kC have kT: "\<forall>c \<in> set (trim ?C). norm_keep c" by blast
  have "single_spaced ?C" by (rule single_spaced_replace_runs)
  with uv have "single_spaced (us @ trim ?C @ vs)" by simp
  then have "single_spaced (trim ?C)" using single_spaced_append by blast
  with kT trim_ends[of ?C] show ?thesis by (simp add: n normal_def)
qed


section \<open>Evaluating the model on literals\<close>

lemmas str_defs =
  js_def norm_def toLowerCase_def lower_unit_def nfd_def nfd_unit_def latin1_decomposition_def
  is_combining_def norm_keep_def is_digit_def is_space_def trim_def

lemmas rx_defs =
  rtest_def wb_def lit_def lit_i_def seqs_def Chr_def Opt_def Plus_def at_word_boundary_def
  is_word_def is_digit_def is_space_def rmatch_groups_def group_def replace_first_def
  replace_all_def is_dot_def

text \<open>
  The code units of ASCII literals are compared as characters: \<open>js\<close> is injective.
\<close>

lemma list_eq_if: "(x # xs = y # ys) = (if x = y then xs = ys else False)"
  by simp

lemmas scan_simps = find.simps str_includes.simps starts_with.simps prod.case if_True if_False
  char.inject simp_thms list.inject list.distinct

lemma inj_js: "inj js"
proof -
  have "inj (of_char :: char \<Rightarrow> nat)" by (rule injI) simp
  then have "inj (map (of_char :: char \<Rightarrow> nat))" by simp
  moreover have "js = map of_char" by (rule ext) (simp add: js_def)
  ultimately show ?thesis by simp
qed

lemma js_eq_iff: "js a = js b \<longleftrightarrow> a = b"
  using inj_js by (auto dest: injD)

lemma starts_with_map: "inj f \<Longrightarrow> starts_with (map f s) (map f a) = starts_with s a"
  by (induction s a rule: starts_with.induct) (auto dest: injD)

lemma str_includes_map:
  assumes "inj f"
  shows "str_includes (map f s) (map f a) = str_includes s a"
proof (induction s)
  case Nil
  show ?case by simp
next
  case (Cons c cs)
  have "starts_with (f c # map f cs) (map f a) = starts_with (c # cs) a"
    using starts_with_map[OF assms, of "c # cs" a] by simp
  with Cons show ?case by simp
qed

lemma starts_with_js: "starts_with (js s) (js a) = starts_with s a"
  unfolding js_def by (rule starts_with_map) (rule injI, simp)

lemma str_includes_js: "str_includes (js s) (js a) = str_includes s a"
  unfolding js_def by (rule str_includes_map) (rule injI, simp)

lemma dict_set_js: "dict_set (map js_pair d) (js k) (js v) = map js_pair (dict_set d k v)"
  by (induction d) (auto simp: js_eq_iff)

lemma strip_refresher_families:
  "strip_refresher (js ''SMSTS'') = js ''SMSTS''"
  "strip_refresher (js ''SMSTS Refresher'') = js ''SMSTS''"
  "strip_refresher (js ''SSSTS'') = js ''SSSTS''"
  "strip_refresher (js ''SSSTS Refresher'') = js ''SSSTS''"
  "strip_refresher (js ''HSA'') = js ''HSA''"
  "strip_refresher (js ''TWC'') = js ''TWC''"
  "strip_refresher (js ''TWC Refresher'') = js ''TWC''"
  "strip_refresher (js ''TWS'') = js ''TWS''"
  "strip_refresher (js ''NEBOSH General'') = js ''NEBOSH General''"
  "strip_refresher (js ''NEBOSH Construction'') = js ''NEBOSH Construction''"
  "strip_refresher (js ''IOSH Managing Safely'') = js ''IOSH Managing Safely''"
  "strip_refresher (js ''IOSH Working Safely'') = js ''IOSH Working Safely''"
  "strip_refresher (js ''IEMA'') = js ''IEMA''"
  "strip_refresher (js ''MHFA'') = js ''MHFA''"
  "strip_refresher (js ''SEATS'') = js ''SEATS''"
  "strip_refresher (js ''EUSR Water Hygiene AM'') = js ''EUSR Water Hygiene AM''"
  "strip_refresher (js ''EUSR Water Hygiene PM'') = js ''EUSR Water Hygiene PM''"
  by (simp_all add: strip_refresher_def str_defs rx_defs)

lemma norm_aliases:
  "norm (js ''smsts'') = js ''smsts''"
  "norm (js ''citb smsts'') = js ''citb smsts''"
  "norm (js ''site management safety training scheme'') = js ''site management safety training scheme''"
  "norm (js ''site managers safety training scheme'') = js ''site managers safety training scheme''"
  "norm (js ''site manager safety training scheme'') = js ''site manager safety training scheme''"
  "norm (js ''site management safety'') = js ''site management safety''"
  "norm (js ''smsts course'') = js ''smsts course''"
  "norm (js ''smsts refresher'') = js ''smsts refresher''"
  "norm (js ''smsts-r'') = js ''smsts r''"
  "norm (js ''citb smsts refresher'') = js ''citb smsts refresher''"
  "norm (js ''site management safety training scheme refresher'') = js ''site management safety training scheme refresher''"
  "norm (js ''site managers safety training scheme refresher'') = js ''site managers safety training scheme refresher''"
  "norm (js ''smsts renewal'') = js ''smsts renewal''"
  "norm (js ''smsts update'') = js ''smsts update''"
  "norm (js ''smsts refresh'') = js ''smsts refresh''"
  "norm (js ''sssts'') = js ''sssts''"
  "norm (js ''citb sssts'') = js ''citb sssts''"
  "norm (js ''site supervisors safety training scheme'') = js ''site supervisors safety training scheme''"
  "norm (js ''site supervisor safety training scheme'') = js ''site supervisor safety training scheme''"
  "norm (js ''site supervisors safety'') = js ''site supervisors safety''"
  "norm (js ''supervisors safety training scheme'') = js ''supervisors safety training scheme''"
  "norm (js ''sssts course'') = js ''sssts course''"
  "norm (js ''sssts refresher'') = js ''sssts refresher''"
  "norm (js ''sssts-r'') = js ''sssts r''"
  "norm (js ''citb sssts refresher'') = js ''citb sssts refresher''"
  "norm (js ''site supervisors safety training scheme refresher'') = js ''site supervisors safety training scheme refresher''"
  "norm (js ''sssts renewal'') = js ''sssts renewal''"
  "norm (js ''sssts update'') = js ''sssts update''"
  "norm (js ''sssts refresh'') = js ''sssts refresh''"
  "norm (js ''hsa'') = js ''hsa''"
  "norm (js ''health and safety awareness'') = js ''health and safety awareness''"
  "norm (js ''health & safety awareness'') = js ''health & safety awareness''"
  "norm (js ''health and safety awareness courses'') = js ''health and safety awareness courses''"
  "norm (js ''health and safety'') = js ''health and safety''"
  "norm (js ''health & safety'') = js ''health & safety''"
  "norm (js ''h&s'') = js ''h&s''"
  "norm (js ''hsa course'') = js ''hsa course''"
  "norm (js ''citb health and safety awareness'') = js ''citb health and safety awareness''"
  "norm (js ''citb hsa'') = js ''citb hsa''"
  "norm (js ''twc'') = js ''twc''"
  "norm (js ''citb twc'') = js ''citb twc''"
  "norm (js ''temporary works coordinator'') = js ''temporary works coordinator''"
  "norm (js ''temporary works co ordinator'') = js ''temporary works co ordinator''"
  "norm (js ''temporary works co-ordinator'') = js ''temporary works co ordinator''"
  "norm (js ''temporary works coordinator course'') = js ''temporary works coordinator course''"
  "norm (js ''temporary works co ordinator course'') = js ''temporary works co ordinator course''"
  "norm (js ''tw coordinator'') = js ''tw coordinator''"
  "norm (js ''tw co-ordinator'') = js ''tw co ordinator''"
  "norm (js ''twc course'') = js ''twc course''"
  "norm (js ''twc refresher'') = js ''twc refresher''"
  "norm (js ''citb twc refresher'') = js ''citb twc refresher''"
  "norm (js ''temporary works coordinator refresher'') = js ''temporary works coordinator refresher''"
  "norm (js ''temporary works co-ordinator refresher'') = js ''temporary works co ordinator refresher''"
  "norm (js ''twc renewal'') = js ''twc renewal''"
  "norm (js ''twc update'') = js ''twc update''"
  "norm (js ''twc refresh'') = js ''twc refresh''"
  "norm (js ''tws'') = js ''tws''"
  "norm (js ''citb tws'') = js ''citb tws''"
  "norm (js ''temporary works supervisor'') = js ''temporary works supervisor''"
  "norm (js ''temporary work supervisor'') = js ''temporary work supervisor''"
  "norm (js ''tw supervisor'') = js ''tw supervisor''"
  "norm (js ''tws course'') = js ''tws course''"
  "norm (js ''nebosh general'') = js ''nebosh general''"
  "norm (js ''nebosh ngc'') = js ''nebosh ngc''"
  "norm (js ''nebosh national general certificate'') = js ''nebosh national general certificate''"
  "norm (js ''nebosh certificate general'') = js ''nebosh certificate general''"
  "norm (js ''nebosh health and safety'') = js ''nebosh health and safety''"
  "norm (js ''nebosh h&s'') = js ''nebosh h&s''"
  "norm (js ''nebosh'') = js ''nebosh''"
  "norm (js ''nebosh construction'') = js ''nebosh construction''"
  "norm (js ''nebosh ncc'') = js ''nebosh ncc''"
  "norm (js ''nebosh national certificate in construction'') = js ''nebosh national certificate in construction''"
  "norm (js ''nebosh construction certificate'') = js ''nebosh construction certificate''"
  "norm (js ''nebosh construction safety'') = js ''nebosh construction safety''"
  "norm (js ''iosh managing safely'') = js ''iosh managing safely''"
  "norm (js ''managing safely'') = js ''managing safely''"
  "norm (js ''iosh ms'') = js ''iosh ms''"
  "norm (js ''iosh manage safely'') = js ''iosh manage safely''"
  "norm (js ''iosh managing'') = js ''iosh managing''"
  "norm (js ''iosh working safely'') = js ''iosh working safely''"
  "norm (js ''working safely'') = js ''working safely''"
  "norm (js ''iosh ws'') = js ''iosh ws''"
  "norm (js ''iosh working'') = js ''iosh working''"
  "norm (js ''iema'') = js ''iema''"
  "norm (js ''iema foundation'') = js ''iema foundation''"
  "norm (js ''iema environmental management'') = js ''iema environmental management''"
  "norm (js ''iema sustainability'') = js ''iema sustainability''"
  "norm (js ''iema course'') = js ''iema course''"
  "norm (js ''environmental'') = js ''environmental''"
  "norm (js ''environmental management'') = js ''environmental management''"
  "norm (js ''foundation certificate in environmental management'') = js ''foundation certificate in environmental management''"
  "norm (js ''foundation in environmental management'') = js ''foundation in environmental management''"
  "norm (js ''mhfa'') = js ''mhfa''"
  "norm (js ''mental health first aid'') = js ''mental health first aid''"
  "norm (js ''mental health first aid course'') = js ''mental health first aid course''"
  "norm (js ''mhfa course'') = js ''mhfa course''"
  "norm (js ''mhfa england'') = js ''mhfa england''"
  "norm (js ''mental health first aid 2 day'') = js ''mental health first aid 2 day''"
  "norm (js ''mhfa 2 day'') = js ''mhfa 2 day''"
  "norm (js ''mhfa two day'') = js ''mhfa two day''"
  "norm (js ''first aid'') = js ''first aid''"
  "norm (js ''seats'') = js ''seats''"
  "norm (js ''site environmental awareness training scheme'') = js ''site environmental awareness training scheme''"
  "norm (js ''site environmental awareness'') = js ''site environmental awareness''"
  "norm (js ''citb seats'') = js ''citb seats''"
  "norm (js ''eusr water hygiene am'') = js ''eusr water hygiene am''"
  "norm (js ''water hygiene am session'') = js ''water hygiene am session''"
  "norm (js ''am water hygiene'') = js ''am water hygiene''"
  "norm (js ''eusr am'') = js ''eusr am''"
  "norm (js ''am session water hygiene'') = js ''am session water hygiene''"
  "norm (js ''water hygiene morning'') = js ''water hygiene morning''"
  "norm (js ''morning water hygiene'') = js ''morning water hygiene''"
  "norm (js ''eusr water hygiene pm'') = js ''eusr water hygiene pm''"
  "norm (js ''water hygiene pm session'') = js ''water hygiene pm session''"
  "norm (js ''pm water hygiene'') = js ''pm water hygiene''"
  "norm (js ''eusr pm'') = js ''eusr pm''"
  "norm (js ''pm session water hygiene'') = js ''pm session water hygiene''"
  "norm (js ''water hygiene afternoon'') = js ''water hygiene afternoon''"
  "norm (js ''afternoon water hygiene'') = js ''afternoon water hygiene''"
  by (simp_all add: str_defs)

lemma ALIAS_TO_FAMILY_eq:
  "ALIAS_TO_FAMILY = map (\<lambda>(a, f). (js a, js f)) alias_table"
proof -
  have "ALIAS_TO_FAMILY =
      foldl (\<lambda>dict m.
         let base = strip_refresher (entry_family m)
         in foldl (\<lambda>dict a. dict_set dict (norm a) base) dict (aliases m))
       (map js_pair []) MAP"
    by (simp add: ALIAS_TO_FAMILY_def)
  also have "\<dots> = map js_pair alias_table"
    unfolding MAP_def alias_table_def
    by (simp only: foldl.simps Let_def map_entry.select_convs norm_aliases
        strip_refresher_families dict_set_js dict_set.simps list_eq_if char.inject simp_thms
        if_True if_False list.distinct)
  finally show ?thesis .
qed

lemma find_alias_js:
  "find (\<lambda>(alias, fam). str_includes (js q) alias) (map js_pair T) =
   map_option js_pair (find (\<lambda>(a, f). str_includes q a) T)"
  by (induction T) (auto simp: str_includes_js)

lemma first_alias_js:
  "find (\<lambda>(alias, fam). str_includes (js q) alias) ALIAS_TO_FAMILY = map_option js_pair (first_alias q)"
  by (simp only: ALIAS_TO_FAMILY_eq find_alias_js first_alias_def)






lemma first_alias_HSA:
  "first_alias ''hsa'' = Some (''hsa'', ''HSA'')"
  "first_alias ''health and safety awareness'' = Some (''health and safety awareness'', ''HSA'')"
  "first_alias ''health & safety awareness'' = Some (''health & safety awareness'', ''HSA'')"
  "first_alias ''health and safety awareness courses'' = Some (''health and safety awareness'', ''HSA'')"
  "first_alias ''health and safety'' = Some (''health and safety'', ''HSA'')"
  "first_alias ''health & safety'' = Some (''health & safety'', ''HSA'')"
  "first_alias ''h&s'' = Some (''h&s'', ''HSA'')"
  "first_alias ''hsa course'' = Some (''hsa'', ''HSA'')"
  "first_alias ''citb health and safety awareness'' = Some (''health and safety awareness'', ''HSA'')"
  "first_alias ''citb hsa'' = Some (''hsa'', ''HSA'')"
  unfolding first_alias_def alias_table_def by (simp_all only: scan_simps)













text \<open>The steps of \<^verbatim>\<open>expandKeywords\<close> on ASCII literals.\<close>

lemma js_Nil_iff: "js a = [] \<longleftrightarrow> a = []"
  by (simp add: js_def)

lemma first_alias_none:
  "first_alias ''iosh'' = None"
  "first_alias ''eusr'' = None"
  unfolding first_alias_def alias_table_def by (simp_all only: scan_simps)

lemma first_alias_tws_refresher:
  "first_alias ''tws refresher'' = Some (''tws'', ''TWS'')"
  unfolding first_alias_def alias_table_def by (simp_all only: scan_simps)

lemma alias_direct_js: "alias_direct (js q) = map_option (\<lambda>(a, f). js f) (first_alias q)"
  unfolding alias_direct_def first_alias_js by (cases "first_alias q") auto

lemma resolve_family_js:
  "resolve_family (js q) =
     eusr_specialise (js q) (iosh_specialise (js q) (nebosh_ambiguous (js q)
       (nebosh_construction (js q) (hsa_fallback (js q) (heuristics (js q)
         (map_option (\<lambda>(a, f). js f) (first_alias q)))))))"
  by (simp add: resolve_family_def alias_direct_js)


lemmas family_step_simps =
  heuristics_def hsa_fallback_def nebosh_construction_def nebosh_ambiguous_def
  iosh_specialise_def eusr_specialise_def falsy_def js_Nil_iff js_eq_iff starts_with_js
  str_includes_js



section \<open>Lists, sorting and callbacks that can throw\<close>

lemma filterE_Inr_iff:
  "filterE p xs = Inr ys \<longleftrightarrow>
     (\<forall>x \<in> set xs. \<exists>b. p x = Inr b) \<and> ys = filter (\<lambda>x. p x = Inr True) xs"
proof (induction xs arbitrary: ys)
  case Nil
  show ?case by auto
next
  case (Cons x xs)
  show ?case
  proof (cases "p x")
    case (Inl e)
    then show ?thesis by auto
  next
    case (Inr b)
    show ?thesis
    proof (cases "filterE p xs")
      case (Inl e)
      with Inr Cons[of "filter (\<lambda>x. p x = Inr True) xs"] show ?thesis by auto
    next
      case r: (Inr zs)
      with Inr Cons[of zs] show ?thesis by auto
    qed
  qed
qed

lemma filterE_Inl_iff:
  "(\<exists>e. filterE p xs = Inl e) \<longleftrightarrow> (\<exists>x \<in> set xs. \<exists>e. p x = Inl e)"
proof -
  have "(\<exists>e. filterE p xs = Inl e) \<longleftrightarrow> \<not> (\<exists>ys. filterE p xs = Inr ys)"
    by (cases "filterE p xs") auto
  also have "\<dots> \<longleftrightarrow> \<not> (\<forall>x \<in> set xs. \<exists>b. p x = Inr b)"
    by (simp add: filterE_Inr_iff)
  also have "\<dots> \<longleftrightarrow> (\<exists>x \<in> set xs. \<exists>e. p x = Inl e)"
    by (metis Inl_Inr_False sum.exhaust)
  finally show ?thesis .
qed

lemma filterE_subset:
  assumes "filterE p xs = Inr ys" and "set zs \<subseteq> set xs"
  shows "filterE p zs = Inr (filter (\<lambda>x. p x = Inr True) zs)"
  using assms by (auto simp: filterE_Inr_iff)

lemma mapE_Inr_iff:
  "mapE f xs = Inr ys \<longleftrightarrow> list_all2 (\<lambda>x y. f x = Inr y) xs ys"
proof (induction xs arbitrary: ys)
  case Nil
  show ?case by auto
next
  case (Cons x xs)
  show ?case
  proof (cases "f x")
    case (Inl e)
    then show ?thesis by (auto simp: list_all2_Cons1)
  next
    case (Inr y)
    show ?thesis
    proof (cases "mapE f xs")
      case (Inl e)
      with Inr Cons show ?thesis by (auto simp: list_all2_Cons1)
    next
      case r: (Inr zs)
      with Inr Cons[of zs] Cons show ?thesis by (auto simp: list_all2_Cons1)
    qed
  qed
qed

lemma mapE_total:
  assumes "\<forall>x \<in> set xs. f x = Inr (g x)"
  shows "mapE f xs = Inr (map g xs)"
  using assms by (induction xs) auto

lemma set_js_insert: "set (js_insert cmp x ys) = insert x (set ys)"
  by (induction ys) auto

lemma set_js_sort: "set (js_sort cmp xs) = set xs"
  unfolding js_sort_def by (induction xs) (auto simp: set_js_insert)

lemma length_js_insert: "length (js_insert cmp x ys) = Suc (length ys)"
  by (induction ys) auto

lemma length_js_sort: "length (js_sort cmp xs) = length xs"
  unfolding js_sort_def by (induction xs) (auto simp: length_js_insert)

lemma js_sort_Nil_iff: "js_sort cmp xs = [] \<longleftrightarrow> xs = []"
  using length_js_sort[of cmp xs] by (metis length_0_conv)

lemma js_insert_insort_key:
  "js_insert (\<lambda>a b. of_nat (f a) - of_nat (f b)) x ys = insort_key f x ys"
  by (induction ys) auto

lemma js_sort_sort_key:
  "js_sort (\<lambda>a b. of_nat (f a) - of_nat (f b)) xs = sort_key f xs"
  unfolding js_sort_def sort_key_def
  by (induction xs) (auto simp: js_insert_insort_key)

lemma length_three: "length ys = 3 \<Longrightarrow> \<exists>p q r. ys = [p, q, r]"
  by (auto simp: length_Suc_conv numeral_3_eq_3)

lemma sorted_three:
  fixes f :: "'a \<Rightarrow> nat"
  assumes "length xs = 3"
  shows "\<exists>p q r. sort_key f xs = [p, q, r] \<and> mset [p, q, r] = mset xs \<and> f p \<le> f q \<and> f q \<le> f r"
proof -
  have "length (sort_key f xs) = 3" using assms by simp
  from length_three[OF this] obtain p q r where s: "sort_key f xs = [p, q, r]"
    by blast
  have "sorted (map f (sort_key f xs))" by (rule sorted_sort_key)
  with s have "f p \<le> f q \<and> f q \<le> f r" by simp
  moreover have "mset (sort_key f xs) = mset xs" by simp
  ultimately show ?thesis using s by auto
qed

section \<open>The families that the resolver returns\<close>

lemma map_fst_checks: "map fst (checks n) = checks_keys"
  by (simp add: checks_def checks_keys_def)

lemma map_of_checks_None: "k \<notin> set checks_keys \<Longrightarrow> map_of (checks n) k = None"
  by (simp add: map_of_eq_None_iff flip: map_fst_checks[of n])


lemma checks_HSA: "map_of (checks n) (js ''HSA'') = Some (rtest rx_hsa_name n)"
  by (simp add: checks_def js_eq_iff)

lemma ends_refresher_families:
  "ends_refresher (js ''SMSTS'') = False"
  "ends_refresher (js ''SMSTS Refresher'') = True"
  "ends_refresher (js ''SSSTS'') = False"
  "ends_refresher (js ''SSSTS Refresher'') = True"
  "ends_refresher (js ''HSA'') = False"
  "ends_refresher (js ''TWC'') = False"
  "ends_refresher (js ''TWC Refresher'') = True"
  "ends_refresher (js ''TWS'') = False"
  "ends_refresher (js ''NEBOSH General'') = False"
  "ends_refresher (js ''NEBOSH Construction'') = False"
  "ends_refresher (js ''IOSH Managing Safely'') = False"
  "ends_refresher (js ''IOSH Working Safely'') = False"
  "ends_refresher (js ''IEMA'') = False"
  "ends_refresher (js ''MHFA'') = False"
  "ends_refresher (js ''SEATS'') = False"
  "ends_refresher (js ''EUSR Water Hygiene AM'') = False"
  "ends_refresher (js ''EUSR Water Hygiene PM'') = False"
  by (simp_all add: ends_refresher_def rx_defs js_def)

lemma REFRESHER_AVAILABLE_eq:
  "REFRESHER_AVAILABLE = [js ''SMSTS'', js ''SSSTS'', js ''TWC'']"
  unfolding REFRESHER_AVAILABLE_def MAP_def
  by (simp add: ends_refresher_families strip_refresher_families uniq_def js_eq_iff)

lemma alias_table_values: "\<forall>(a, f) \<in> set alias_table. f \<noteq> []"
  unfolding alias_table_def by simp

lemma alias_direct_nonempty: "alias_direct q \<noteq> Some []"
proof
  assume a: "alias_direct q = Some []"
  then obtain k where "find (\<lambda>(alias, fam). str_includes q alias) ALIAS_TO_FAMILY = Some (k, [])"
    by (auto simp: alias_direct_def)
  then have "(k, []) \<in> set ALIAS_TO_FAMILY"
    by (auto simp: find_Some_iff in_set_conv_nth)
  then obtain a f where "(a, f) \<in> set alias_table" and "js f = []"
    by (auto simp: ALIAS_TO_FAMILY_eq)
  with alias_table_values show False by (auto simp: js_Nil_iff)
qed

lemma acronym_step_nonempty: "fam \<noteq> Some [] \<Longrightarrow> acronym_step q fam \<noteq> Some []"
  by (auto simp: acronym_step_def mapAcr_def js_Nil_iff js_eq_iff split: option.splits if_splits)

lemma iosh_variant_nonempty: "iosh_variant q \<noteq> Some []"
  by (simp add: iosh_variant_def js_Nil_iff)

lemma eusr_variant_nonempty: "eusr_variant q \<noteq> Some []"
  by (simp add: eusr_variant_def js_Nil_iff)

lemma resolve_family_nonempty: "resolve_family q \<noteq> Some []"
proof -
  have 1: "heuristics q (alias_direct q) \<noteq> Some []"
    using alias_direct_nonempty[of q] acronym_step_nonempty[of "alias_direct q" q]
      iosh_variant_nonempty[of q] eusr_variant_nonempty[of q]
    by (auto simp: heuristics_def water_hygiene_step_def iosh_phrase_step_def js_Nil_iff
        split: option.splits if_splits)
  then have 2: "nebosh_ambiguous q (nebosh_construction q (hsa_fallback q
      (heuristics q (alias_direct q)))) \<noteq> Some []"
    by (auto simp: hsa_fallback_def nebosh_construction_def nebosh_ambiguous_def js_Nil_iff
        split: if_splits)
  then show ?thesis
    using iosh_variant_nonempty[of q] eusr_variant_nonempty[of q]
    by (auto simp: resolve_family_def iosh_specialise_def eusr_specialise_def
        split: option.splits if_splits)
qed

lemma family_expandKeywords_nonempty: "family (expandKeywords t) \<noteq> Some []"
  using resolve_family_nonempty by (simp add: expandKeywords_def Let_def)











lemma matchLocation_total:
  assumes "loc_norm (or_empty l) \<notin> set object_prototype_names"
  shows "\<exists>b. matchLocation l nm = Inr b"
  using assms by (auto simp: matchLocation_def Let_def split: option.splits)

section \<open>The resolver on four queries\<close>

lemma js_append: "js a @ js b = js (a @ b)"
  by (simp add: js_def)

lemma expandKeywords_iosh:
  "expandKeywords (js ''iosh'') =
     \<lparr>family = Some (js ''IOSH''), refresher = None, tokens = [js ''iosh'']\<rparr>"
proof -
  have n: "norm (js ''iosh'') = js ''iosh''" by (simp add: str_defs)
  have b: "acronym_step (js ''iosh'') None = Some (js ''IOSH'')"
    by (simp add: acronym_step_def acrHits_def str_includes_js mapAcr_def js_eq_iff)
  have h: "heuristics (js ''iosh'') None = Some (js ''IOSH'')"
    by (simp add: heuristics_def b iosh_phrase_step_def water_hygiene_step_def falsy_def js_Nil_iff)
  have v: "iosh_variant (js ''iosh'') = None"
    by (simp add: iosh_variant_def rx_defs js_def)
  have r: "resolve_family (js ''iosh'') = Some (js ''IOSH'')"
    by (simp add: resolve_family_js first_alias_none h v hsa_fallback_def nebosh_construction_def
        nebosh_ambiguous_def iosh_specialise_def eusr_specialise_def falsy_def js_Nil_iff
        js_eq_iff starts_with_js)
  have d: "detectRefresher (js ''iosh'') = None"
    by (simp add: detectRefresher_def n Let_def) (simp add: rx_defs js_def)
  show ?thesis
    by (simp add: expandKeywords_def js_Nil_iff n r d)
qed

lemma expandKeywords_eusr:
  "expandKeywords (js ''eusr'') =
     \<lparr>family = Some (js ''EUSR''), refresher = None, tokens = [js ''eusr'']\<rparr>"
proof -
  have n: "norm (js ''eusr'') = js ''eusr''" by (simp add: str_defs)
  have b: "acronym_step (js ''eusr'') None = Some (js ''EUSR'')"
    by (simp add: acronym_step_def acrHits_def str_includes_js mapAcr_def js_eq_iff)
  have h: "heuristics (js ''eusr'') None = Some (js ''EUSR'')"
    by (simp add: heuristics_def b iosh_phrase_step_def water_hygiene_step_def falsy_def js_Nil_iff)
  have v: "eusr_variant (js ''eusr'') = None"
    by (simp add: eusr_variant_def rx_am_def rx_pm_def rx_defs js_def)
  have r: "resolve_family (js ''eusr'') = Some (js ''EUSR'')"
    by (simp add: resolve_family_js first_alias_none h v hsa_fallback_def nebosh_construction_def
        nebosh_ambiguous_def iosh_specialise_def eusr_specialise_def falsy_def js_Nil_iff
        js_eq_iff starts_with_js)
  have d: "detectRefresher (js ''eusr'') = None"
    by (simp add: detectRefresher_def n Let_def) (simp add: rx_defs js_def)
  show ?thesis
    by (simp add: expandKeywords_def js_Nil_iff n r d)
qed

lemma expandKeywords_tws_refresher:
  "expandKeywords (js ''tws refresher'') =
     \<lparr>family = Some (js ''TWS''), refresher = Some True, tokens = [js ''tws refresher'']\<rparr>"
proof -
  have n: "norm (js ''tws refresher'') = js ''tws refresher''" by (simp add: str_defs)
  have r: "resolve_family (js ''tws refresher'') = Some (js ''TWS'')"
    by (simp add: resolve_family_js first_alias_tws_refresher family_step_simps)
  have "rtest (wb ''refresher'') (js ''tws refresher'')"
    by (simp add: rx_defs js_def is_digit_def)
  then have d: "detectRefresher (js ''tws refresher'') = Some True"
    by (simp add: detectRefresher_def n Let_def)
  show ?thesis
    by (simp add: expandKeywords_def js_Nil_iff n r d)
qed

lemma expandKeywords_hsa:
  "expandKeywords (js ''hsa'') = \<lparr>family = Some (js ''HSA''), refresher = None, tokens = [js ''hsa'']\<rparr>"
proof -
  have n: "norm (js ''hsa'') = js ''hsa''" by (simp add: norm_aliases)
  have r: "resolve_family (js ''hsa'') = Some (js ''HSA'')"
    by (simp add: resolve_family_js first_alias_HSA family_step_simps)
  have d: "detectRefresher (js ''hsa'') = None"
    by (simp add: detectRefresher_def n Let_def) (simp add: rx_defs js_def)
  show ?thesis
    by (simp add: expandKeywords_def js_Nil_iff n r d)
qed

section \<open>The date window of "after 31 january" on 15 August 2025\<close>

lemma q_after: "trim (toLowerCase (js ''after 31 january'')) = js ''after 31 january''"
  by (simp add: str_defs)

lemma tests_after:
  "rtest rx_anytime (js ''after 31 january'') = False"
  "rtest (wb ''this month'') (js ''after 31 january'') = False"
  "rtest (wb ''next month'') (js ''after 31 january'') = False"
  "rtest rx_next_week (js ''after 31 january'') = False"
  "rmatch_groups rx_in_weeks (js ''after 31 january'') = None"
  "rmatch_groups rx_next_weeks (js ''after 31 january'') = None"
  by (simp_all add: rx_anytime_def rx_next_week_def rx_in_weeks_def rx_next_weeks_def rx_defs
      js_def)

lemma match_after:
  "rmatch_groups dayMonthRe (js ''after 31 january'') =
     Some [(4, js ''january''), (2, js ''31''), (1, js ''after'')]"
  by (simp add: dayMonthRe_def rx_defs js_def)

lemma parse_31: "parseInt (js ''31'') = N 31"
  by (simp add: parseInt_def js_def is_space_def is_digit_def digits_value_def)

lemma show_31: "show_num (N 31) = js ''31''"
  by (simp add: show_num_def show_int_def js_def)

lemma month_january: "lookup_MONTHS (js ''january'') = Some (N 0)"
  by (simp add: lookup_MONTHS_def MONTHS_def js_eq_iff)

lemma now_midnight: "toUTC00 (N 1755216000000) = N 1755216000000"
  by (simp add: toUTC00_def TimeClip_def msPerDay_def)

lemma civil_20315: "civil_from_days 20315 = (2025, 8, 15)"
  by (simp add: civil_from_days_def Let_def cong: let_weak_cong)

lemma now_year: "getUTCFullYear (N 1755216000000) = N 2025"
  by (simp add: getUTCFullYear_def nmap_def msPerDay_def civil_20315)

lemma now_month: "getUTCMonth (N 1755216000000) = N 7"
  by (simp add: getUTCMonth_def nmap_def msPerDay_def civil_20315)

lemma rollover_january: "rollover (N 0) (N 1755216000000) = N 2026"
  by (simp add: rollover_def now_year now_month nless_def nmap_def)

lemma days_2026_01: "days_from_civil 2026 1 1 = 20454"
  by (simp add: days_from_civil_def Let_def cong: let_weak_cong)

lemma date_2026_01_32: "utcDate (N 2026) (N 0) (N 32) = N 1769904000000"
  by (simp add: utcDate_def MakeDay_def days_2026_01 TimeClip_def msPerDay_def Let_def cong: let_weak_cong)

lemma days_2026_02: "days_from_civil 2026 2 1 = 20485"
  by (simp add: days_from_civil_def Let_def cong: let_weak_cong)

lemma end_2026_01: "monthEndUTC (N 2026) (N 0) = N 1769817600000"
  by (simp add: monthEndUTC_def utcDate_def MakeDay_def days_2026_02 TimeClip_def msPerDay_def nmap_def Let_def cong: let_weak_cong)

section \<open>The diagnosis, without its exceptions\<close>

lemma future_session_time:
  assumes "future_session today p"
  shows "\<exists>t. parseLooseDate (start_date p) = Some (N t) \<and> nle today (N t)"
  using assms
  by (auto simp: future_session_def nle_def split: option.splits num.splits)

lemma mapItem_future: "future_session today p \<Longrightarrow> mapItem p = Inr (item_of p)"
  by (auto dest!: future_session_time simp: mapItem_def item_of_def session_time_def)

lemma mapItem_valid:
  "parseLooseDate (start_date p) \<noteq> Some NaN \<Longrightarrow> mapItem p = Inr (item_of p)"
  by (auto simp: mapItem_def item_of_def session_time_def split: option.splits num.splits)

lemma mapE_mapItem_future:
  assumes "\<forall>p \<in> set xs. future_session today p"
  shows "mapE mapItem xs = Inr (map item_of xs)"
  using assms by (intro mapE_total) (auto simp: mapItem_future)

lemma diagnoseSearch_normal_form:
  "diagnoseSearch clock products ps =
    bindE (filterE (family_and_ref (family (expandKeywords (or_empty (courseTerm ps)))) (effective_refresher ps)) products) (\<lambda>M.
    bindE (filterE (\<lambda>p. matchLocation (location ps) (name p)) M) (\<lambda>L.
    bindE (filterE (\<lambda>p.
              bindE (family_and_ref (family (expandKeywords (or_empty (courseTerm ps))))
                       (map_option Not (effective_refresher ps)) p) (\<lambda>ok.
                if \<not> ok then Inr False
                else if (case dateRange ps of None \<Rightarrow> False | Some w \<Rightarrow> \<not> in_date_range w p)
                then Inr False
                else matchLocation (location ps) (Str (or_empty (name p)))))
            products) (\<lambda>alt.
    bindE (mapE mapItem (take 3 (js_sort date_cmp alt))) (\<lambda>stdAlt.
      Inr \<lparr>diag_family = family (expandKeywords (or_empty (courseTerm ps))),
           diag_refresher = effective_refresher ps,
           hasAnyFamilyRef = (M \<noteq> []),
           hasInDateAnyLoc =
             (filter (\<lambda>p. case dateRange ps of None \<Rightarrow> True | Some w \<Rightarrow> in_date_range w p) M \<noteq> []),
           hasInLocAnyDate = (L \<noteq> []),
           nearestInLocation =
             map item_of (take 3 (js_sort date_cmp
               (filter (at_location ps) (filter (future_session (toUTC00 clock)) M)))),
           nearestAnywhere =
             map item_of (take 3 (js_sort date_cmp (filter (future_session (toUTC00 clock)) M))),
           standardAlt = stdAlt\<rparr>))))"
proof (cases "filterE (family_and_ref (family (expandKeywords (or_empty (courseTerm ps)))) (effective_refresher ps)) products")
  case (Inl e)
  then show ?thesis
    by (simp add: diagnoseSearch_def Let_def bindE_def effective_refresher_def)
next
  case M: (Inr M)
  show ?thesis
  proof (cases "filterE (\<lambda>p. matchLocation (location ps) (name p)) M")
    case (Inl e)
    with M show ?thesis
      by (simp add: diagnoseSearch_def Let_def bindE_def effective_refresher_def)
  next
    case L: (Inr L)
    let ?F = "filter (future_session (toUTC00 clock)) M"
    have F: "filter (\<lambda>p. case parseLooseDate (start_date p) of None \<Rightarrow> False
                          | Some d \<Rightarrow> nle (toUTC00 clock) d) M = ?F"
      by (intro filter_cong refl) (simp add: future_session_def)
    have "set ?F \<subseteq> set M" by auto
    from filterE_subset[OF L this]
    have C: "filterE (\<lambda>p. matchLocation (location ps) (name p)) ?F = Inr (filter (at_location ps) ?F)"
      by (simp add: at_location_def)
    have D: "mapE mapItem (take 3 (js_sort date_cmp (filter (at_location ps) ?F))) =
        Inr (map item_of (take 3 (js_sort date_cmp (filter (at_location ps) ?F))))"
      by (rule mapE_mapItem_future[of _ "toUTC00 clock"]) (auto dest!: in_set_takeD simp: set_js_sort)
    have E: "mapE mapItem (take 3 (js_sort date_cmp ?F)) =
        Inr (map item_of (take 3 (js_sort date_cmp ?F)))"
      by (rule mapE_mapItem_future[of _ "toUTC00 clock"]) (auto dest!: in_set_takeD simp: set_js_sort)
    have eff: "(case includeRefresher ps of Some b \<Rightarrow> Some b
        | None \<Rightarrow> refresher (expandKeywords (or_empty (courseTerm ps)))) = effective_refresher ps"
      by (simp add: effective_refresher_def)
    show ?thesis
      unfolding diagnoseSearch_def Let_def eff
      by (simp add: bindE_def M L F C D E del: filter_filter)
  qed
qed

section \<open>The session of the example\<close>

lemma hsa_name_lower:
  "toLowerCase (js ''Health and Safety Awareness | Stratford | 1 day'') =
     js ''health and safety awareness | stratford | 1 day''"
  by (simp add: js_def toLowerCase_def lower_unit_def)

lemma hsa_name_matches:
  "rtest rx_hsa_name (js ''health and safety awareness | stratford | 1 day'')"
  by (simp add: rx_hsa_name_def rx_defs js_def)

lemma hsa_family_and_ref:
  "family_and_ref (Some (js ''HSA'')) None hsa_session = Inr True"
  by (simp add: family_and_ref_def hsa_session_def or_empty_def isCourseMatchByFamily_def
      falsy_def js_Nil_iff js_eq_iff hsa_name_lower checks_HSA hsa_name_matches truthy_def
      isRefresherMatch_def)

lemma strip_20th:
  "stripOrdinals (js ''Wed 20th August 2025'') = js ''Wed 20 August 2025''"
  by (simp add: stripOrdinals_def rx_ordinal_def rx_defs js_def Let_def)

lemma parts_20_august:
  "filter (\<lambda>p. p \<noteq> []) (split_on 32 (trim (filter (\<lambda>c. c \<noteq> 44) (js ''Wed 20 August 2025'')))) =
     [js ''Wed'', js ''20'', js ''August'', js ''2025'']"
  by (simp add: js_def trim_def is_space_def)

lemma parseInt_tokens:
  "parseInt (js ''Wed'') = NaN"
  "parseInt (js ''20'') = N 20"
  "parseInt (js ''2025'') = N 2025"
  by (simp_all add: parseInt_def js_def is_space_def is_digit_def digits_value_def Let_def)

lemma month_august: "lookup_MONTHS (toLowerCase (js ''August'')) = Some (N 7)"
proof -
  have "toLowerCase (js ''August'') = js ''august''"
    by (simp add: js_def toLowerCase_def lower_unit_def)
  then show ?thesis by (simp add: lookup_MONTHS_def MONTHS_def js_eq_iff)
qed

lemma days_2025_08: "days_from_civil 2025 8 1 = 20301"
  by (simp add: days_from_civil_def Let_def cong: let_weak_cong)

lemma date_2025_08_20: "utcDate (N 2025) (N 7) (N 20) = N 1755648000000"
  by (simp add: utcDate_def MakeDay_def days_2025_08 TimeClip_def msPerDay_def Let_def
      cong: let_weak_cong)

lemma hsa_parse:
  "parseLooseDate (Str (js ''Wed 20th August 2025'')) = Some (N 1755648000000)"
  by (simp add: parseLooseDate_def js_Nil_iff strip_20th parts_20_august nth_opt_def
      parseInt_opt_def parseInt_tokens month_august date_2025_08_20 Let_def
      cong: let_weak_cong)

lemma hsa_not_in_september: "\<not> in_date_range september_2025 hsa_session"
  by (simp add: in_date_range_def september_2025_def hsa_session_def withinRange_def hsa_parse
      toUTC00_def TimeClip_def msPerDay_def nless_def Let_def)

lemma hsa_future_15:
  "future_session (toUTC00 (N 1755216000000)) hsa_session"
  by (simp add: future_session_def hsa_session_def hsa_parse toUTC00_def TimeClip_def
      msPerDay_def nle_def)

lemma hsa_past_25:
  "\<not> future_session (toUTC00 (N 1756080000000)) hsa_session"
  by (simp add: future_session_def hsa_session_def hsa_parse toUTC00_def TimeClip_def
      msPerDay_def nle_def)

lemma loc_norm_stratford:
  "loc_norm (js ''stratford'') = js ''stratford''"
  "loc_norm (js ''Stratford'') = js ''stratford''"
  by (simp_all add: loc_norm_def str_defs)

lemma hsa_name_loc_norm:
  "loc_norm (js ''Health and Safety Awareness | Stratford | 1 day'') =
     js ''health and safety awareness | stratford | 1 day''"
  by (simp add: loc_norm_def str_defs)

lemma hsa_not_online:
  "\<not> rtest (wb ''online'') (js ''health and safety awareness | stratford | 1 day'')"
  by (simp add: rx_defs js_def)

lemma hsa_parts:
  "filter (\<lambda>p. p \<noteq> [])
     (map trim (split_on 124 (js ''Health and Safety Awareness | Stratford | 1 day''))) =
   [js ''Health and Safety Awareness'', js ''Stratford'', js ''1 day'']"
  by (simp add: js_def trim_def is_space_def)

lemma hsa_facet:
  "detectLocationFacet (Str (js ''Health and Safety Awareness | Stratford | 1 day'')) =
     Some (js ''Stratford'')"
  by (simp add: detectLocationFacet_def or_empty_def hsa_name_loc_norm hsa_not_online hsa_parts
      nth_opt_def loc_norm_stratford js_Nil_iff js_eq_iff Let_def cong: let_weak_cong)

lemma hsa_at_stratford:
  "matchLocation (Str (js ''stratford'')) (Str (js ''Health and Safety Awareness | Stratford | 1 day'')) =
     Inr True"
  by (simp add: matchLocation_def field_truthy_def or_empty_def loc_norm_stratford hsa_facet
      js_Nil_iff js_eq_iff str_includes_js Let_def cong: let_weak_cong)

section \<open>Properties inherited by \<^verbatim>\<open>checks\<close>\<close>

lemma call_inherited_None: "call_inherited key = Inr None \<longleftrightarrow> key \<notin> set shadowing_names"
  by (auto simp: call_inherited_def shadowing_names_def)

lemma call_inherited_True: "call_inherited key \<noteq> Inr (Some (MBool True))"
  by (auto simp: call_inherited_def)

section \<open>\<^verbatim>\<open>levenshtein\<close> computes the edit distance\<close>

lemma edit_distance_Nil2: "edit_distance xs [] = length xs"
  by (cases xs) auto

lemma min_nine:
  fixes A B C D E F G H I c d :: nat
  shows "min (min (min (min (A + 1) (B + 1)) (C + d) + 1) (min (min (D + 1) (E + 1)) (F + d) + 1))
           (min (min (G + 1) (H + 1)) (I + d) + c) =
         min (min (min (min (A + 1) (D + 1)) (G + c) + 1) (min (min (B + 1) (E + 1)) (H + c) + 1))
           (min (min (C + 1) (F + 1)) (I + c) + d)"
  by (rule antisym) (auto simp: min_le_iff_disj)

lemma edit_distance_snoc:
  "edit_distance (xs @ [x]) (ys @ [y]) =
     min (min (edit_distance xs (ys @ [y]) + 1) (edit_distance (xs @ [x]) ys + 1))
       (edit_distance xs ys + (if x = y then 0 else 1))"
proof (induction xs ys rule: edit_distance.induct)
  case (1 ys)
  show ?case
  proof (induction ys)
    case Nil
    show ?case by simp
  next
    case (Cons b ys)
    then show ?case
      by (simp add: edit_distance_Nil2 min_add_distrib_left min_add_distrib_right ac_simps)
  qed
next
  case (2 a xs)
  show ?case
  proof (induction xs arbitrary: a)
    case Nil
    show ?case by (simp add: edit_distance_Nil2)
  next
    case (Cons a' xs)
    define c :: nat where "c = (if a = y then 0 else 1)"
    define d :: nat where "d = (if x = y then 0 else 1)"
    have ih: "edit_distance (a' # xs @ [x]) [y] =
        min (min (edit_distance (a' # xs) [y] + 1) (edit_distance (a' # xs @ [x]) [] + 1))
          (edit_distance (a' # xs) [] + d)"
      using Cons[of a'] by (simp only: d_def append_Cons append_Nil)
    have l: "edit_distance (a # a' # xs @ [x]) [y] =
        min (min (edit_distance (a' # xs @ [x]) [y] + 1) (edit_distance (a # a' # xs @ [x]) [] + 1))
          (edit_distance (a' # xs @ [x]) [] + c)"
      by (simp only: c_def edit_distance.simps)
    have r: "edit_distance (a # a' # xs) [y] =
        min (min (edit_distance (a' # xs) [y] + 1) (edit_distance (a # a' # xs) [] + 1))
          (edit_distance (a' # xs) [] + c)"
      by (simp only: c_def edit_distance.simps)
    have "edit_distance (a # a' # xs @ [x]) [y] =
        min (min (edit_distance (a # a' # xs) [y] + 1) (edit_distance (a # a' # xs @ [x]) [] + 1))
          (edit_distance (a # a' # xs) [] + d)"
      unfolding l r ih edit_distance_Nil2
      by (rule antisym) (auto simp: min_le_iff_disj)
    then show ?case by (simp only: d_def append_Cons append_Nil)
  qed
next
  case (3 a xs b ys)
  define c :: nat where "c = (if a = b then 0 else 1)"
  define d :: nat where "d = (if x = y then 0 else 1)"
  have 1: "edit_distance (xs @ [x]) (b # ys @ [y]) =
      min (min (edit_distance xs (b # ys @ [y]) + 1) (edit_distance (xs @ [x]) (b # ys) + 1))
        (edit_distance xs (b # ys) + d)"
    using 3(1) by (simp only: d_def append_Cons)
  have 2: "edit_distance (a # xs @ [x]) (ys @ [y]) =
      min (min (edit_distance (a # xs) (ys @ [y]) + 1) (edit_distance (a # xs @ [x]) ys + 1))
        (edit_distance (a # xs) ys + d)"
    using 3(2) by (simp only: d_def append_Cons)
  have 3: "edit_distance (xs @ [x]) (ys @ [y]) =
      min (min (edit_distance xs (ys @ [y]) + 1) (edit_distance (xs @ [x]) ys + 1))
        (edit_distance xs ys + d)"
    using 3(3) by (simp only: d_def)
  have l: "edit_distance ((a # xs) @ [x]) ((b # ys) @ [y]) =
      min (min (edit_distance (xs @ [x]) (b # ys @ [y]) + 1)
               (edit_distance (a # xs @ [x]) (ys @ [y]) + 1))
        (edit_distance (xs @ [x]) (ys @ [y]) + c)"
    by (simp only: c_def append_Cons edit_distance.simps)
  have r1: "edit_distance (a # xs) ((b # ys) @ [y]) =
      min (min (edit_distance xs (b # ys @ [y]) + 1) (edit_distance (a # xs) (ys @ [y]) + 1))
        (edit_distance xs (ys @ [y]) + c)"
    by (simp only: c_def append_Cons edit_distance.simps)
  have r2: "edit_distance ((a # xs) @ [x]) (b # ys) =
      min (min (edit_distance (xs @ [x]) (b # ys) + 1) (edit_distance (a # xs @ [x]) ys + 1))
        (edit_distance (xs @ [x]) ys + c)"
    by (simp only: c_def append_Cons edit_distance.simps)
  have r3: "edit_distance (a # xs) (b # ys) =
      min (min (edit_distance xs (b # ys) + 1) (edit_distance (a # xs) ys + 1))
        (edit_distance xs ys + c)"
    by (simp only: c_def edit_distance.simps)
  have "edit_distance ((a # xs) @ [x]) ((b # ys) @ [y]) =
      min (min (edit_distance (a # xs) ((b # ys) @ [y]) + 1)
               (edit_distance ((a # xs) @ [x]) (b # ys) + 1))
        (edit_distance (a # xs) (b # ys) + d)"
    unfolding l r1 r2 r3 1 2 3 by (rule min_nine)
  then show ?case by (simp only: d_def)
qed

lemma upt_1_Suc: "[1..<Suc n + 1] = 1 # map Suc [1..<n + 1]"
  by (simp add: upt_conv_Cons map_Suc_upt del: upt_Suc)

lemma lev_row_edit_distance:
  "lev_row x ys (edit_distance P Q) (edit_distance (P @ [x]) Q)
     (map (\<lambda>k. edit_distance P (Q @ take k ys)) [1..<length ys + 1]) =
   map (\<lambda>k. edit_distance (P @ [x]) (Q @ take k ys)) [1..<length ys + 1]"
proof (induction ys arbitrary: Q)
  case Nil
  show ?case by simp
next
  case (Cons y ys)
  have u: "[1..<length (y # ys) + 1] = 1 # map Suc [1..<length ys + 1]"
    using upt_1_Suc[of "length ys"] by simp
  show ?case
    unfolding u using Cons[of "Q @ [y]"]
    by (simp add: Let_def comp_def edit_distance_snoc del: upt_Suc)
qed

lemma lev_fold_edit_distance:
  "foldl (\<lambda>(d0, ds) (i, x). (i, lev_row x b d0 i ds)) (length P, lev_rows P b)
     (zip [length P + 1..<length P + length xs + 1] xs) =
   (length (P @ xs), lev_rows (P @ xs) b)"
proof (induction xs arbitrary: P)
  case Nil
  show ?case by simp
next
  case (Cons x xs)
  have u: "[length P + 1..<length P + length (x # xs) + 1] =
      (length P + 1) # [length (P @ [x]) + 1..<length (P @ [x]) + length xs + 1]"
    by (simp add: upt_conv_Cons del: upt_Suc)
  have r: "lev_row x b (length P) (Suc (length P)) (lev_rows P b) = lev_rows (P @ [x]) b"
    using lev_row_edit_distance[of x b P "[]"]
    by (simp add: lev_rows_def edit_distance_Nil2 del: upt_Suc)
  show ?case
    unfolding u using Cons[of "P @ [x]"] by (simp add: r del: upt_Suc)
qed

lemma lev_dp_edit_distance:
  fixes a b :: jsstring
  shows "(let m = length a; n = length b in
      if m = 0 then n
      else if n = 0 then m
      else
        let row0 = (0, [1..<n + 1]);
            rowm = foldl (\<lambda>(d0, ds) (i, x). (i, lev_row x b d0 i ds)) row0 (zip [1..<m + 1] a)
        in last (fst rowm # snd rowm)) = edit_distance a b"
proof (cases "a = [] \<or> b = []")
  case True
  then show ?thesis by (auto simp: Let_def edit_distance_Nil2)
next
  case False
  have "map (\<lambda>k. edit_distance [] (take k b)) [1..<length b + 1] = map (\<lambda>k. k) [1..<length b + 1]"
    by (rule map_cong) auto
  then have r0: "(0, [1..<length b + 1]) = (length ([] :: jsstring), lev_rows [] b)"
    by (simp add: lev_rows_def del: upt_Suc)
  have f: "foldl (\<lambda>(d0, ds) (i, x). (i, lev_row x b d0 i ds)) (0, [1..<length b + 1])
      (zip [1..<length a + 1] a) = (length a, lev_rows a b)"
    unfolding r0 using lev_fold_edit_distance[of b "[]" a] by simp
  have "lev_rows a b \<noteq> []" using False by (cases b) (simp_all add: lev_rows_def)
  moreover have "last (lev_rows a b) = edit_distance a b"
    using False by (cases b) (simp_all add: lev_rows_def last_map)
  ultimately show ?thesis using False f
    by (simp add: Let_def del: upt_Suc)
qed

lemma levenshtein_edit_distance: "levenshtein a b = edit_distance (norm a) (norm b)"
  using lev_dp_edit_distance[of "norm a" "norm b"]
  by (simp add: levenshtein_def Let_def del: upt_Suc)

lemma insort_key_map:
  "insort_key f (g x) (map g xs) = map g (insort_key (\<lambda>x. f (g x)) x xs)"
  by (induction xs) auto

lemma sort_key_map: "sort_key f (map g xs) = map g (sort_key (\<lambda>x. f (g x)) xs)"
  by (induction xs) (auto simp: insort_key_map)

lemma norm_refresher_families:
  "norm (js ''SMSTS'') = js ''smsts''"
  "norm (js ''SSSTS'') = js ''sssts''"
  "norm (js ''TWC'') = js ''twc''"
  "norm (js ''TWS'') = js ''tws''"
  by (simp_all add: str_defs)

lemma edit_distance_tws:
  "edit_distance (js ''smsts'') (js ''tws'') = 4"
  "edit_distance (js ''sssts'') (js ''tws'') = 4"
  "edit_distance (js ''twc'') (js ''tws'') = 1"
  by (simp_all add: js_def)

section \<open>The first alias in the order of the catalogue\<close>







section \<open>Diagnostics for the session of the example\<close>

lemma hsa_query_fields:
  "or_empty (courseTerm hsa_query) = js ''hsa''"
  "location hsa_query = Str (js ''stratford'')"
  "dateRange hsa_query = Some september_2025"
  "effective_refresher hsa_query = None"
  by (simp_all add: hsa_query_def or_empty_def effective_refresher_def expandKeywords_hsa)


lemma hsa_at_location: "at_location hsa_query hsa_session"
  by (simp add: at_location_def hsa_query_fields hsa_session_def hsa_at_stratford)

lemma js_sort_single: "js_sort cmp [x] = [x]"
  by (simp add: js_sort_def)

lemma diagnose_hsa:
  "diagnoseSearch c [hsa_session] hsa_query =
     Inr \<lparr>diag_family = Some (js ''HSA''), diag_refresher = None,
          hasAnyFamilyRef = True, hasInDateAnyLoc = False, hasInLocAnyDate = True,
          nearestInLocation =
            (if future_session (toUTC00 c) hsa_session then [item_of hsa_session] else []),
          nearestAnywhere =
            (if future_session (toUTC00 c) hsa_session then [item_of hsa_session] else []),
          standardAlt = []\<rparr>"
proof -
  have l: "matchLocation (Str (js ''stratford'')) (name hsa_session) = Inr True"
    by (simp add: hsa_session_def hsa_at_stratford)
  have l': "matchLocation (Str (js ''stratford'')) (Str (or_empty (name hsa_session))) = Inr True"
    by (simp add: hsa_session_def or_empty_def hsa_at_stratford)
  show ?thesis
    unfolding diagnoseSearch_normal_form
    by (simp add: hsa_query_fields expandKeywords_hsa hsa_family_and_ref bindE_def l l'
        hsa_not_in_september hsa_at_location js_sort_single js_sort_def)
qed

lemma same_day: "toUTC00 (N 1755216000000) = toUTC00 (N 1755252000001)"
  by (simp add: toUTC00_def TimeClip_def msPerDay_def)

section \<open>A search with no filter\<close>

lemma no_filter_pred:
  "family_and_ref (family (expandKeywords (or_empty (courseTerm no_filter))))
     (case includeRefresher no_filter of Some b \<Rightarrow> Some b
      | None \<Rightarrow> refresher (expandKeywords (or_empty (courseTerm no_filter)))) p = Inr True"
  by (simp add: no_filter_def or_empty_def expandKeywords_def family_and_ref_def
      isCourseMatchByFamily_def falsy_def truthy_def isRefresherMatch_def)

lemma no_filter_location: "matchLocation (location no_filter) nm = Inr True"
  by (simp add: no_filter_def matchLocation_def field_truthy_def or_empty_def)

lemma filterE_all: "(\<And>x. p x = Inr True) \<Longrightarrow> filterE p xs = Inr xs"
  by (induction xs) auto

lemma search_no_filter:
  "searchCoursesInMemory products no_filter =
     mapE mapItem (dedup [] (js_sort search_cmp products))"
proof -
  have "filterE (\<lambda>p.
               bindE (family_and_ref (family (expandKeywords (or_empty (courseTerm no_filter))))
                 (case includeRefresher no_filter of Some b \<Rightarrow> Some b
                  | None \<Rightarrow> refresher (expandKeywords (or_empty (courseTerm no_filter)))) p) (\<lambda>ok.
                 if \<not> ok then Inr False
                 else if (case dateRange no_filter of
                            Some w \<Rightarrow> (start w \<noteq> None \<or> end' w \<noteq> None) \<and> \<not> in_date_range w p
                          | None \<Rightarrow> False)
                 then Inr False
                 else matchLocation (location no_filter) (Str (or_empty (name p)))))
             products = Inr products"
    by (rule filterE_all) (simp add: no_filter_pred bindE_def no_filter_location, simp add: no_filter_def)
  then show ?thesis
    by (simp add: searchCoursesInMemory_def Let_def bindE_def)
qed

lemma parse_row_1: "parseLooseDate (Str (js ''C'')) = None"
  by (simp add: parseLooseDate_def stripOrdinals_def replace_all_def rx_ordinal_def
      rx_defs str_defs js_def trim_def Let_def nth_opt_def parseInt_opt_def
      cong: let_weak_cong)

lemma parse_row_2: "parseLooseDate (Str (js ''B::C'')) = None"
  by (simp add: parseLooseDate_def stripOrdinals_def replace_all_def rx_ordinal_def
      rx_defs str_defs js_def trim_def Let_def nth_opt_def parseInt_opt_def
      cong: let_weak_cong)

lemma no_price: "toNumericPrice Undefined = 0"
  by (simp add: toNumericPrice_def or_empty_def Number_of_def digits_value_def)

lemma search_cmp_rows: "search_cmp row_1 row_2 = 0"
  by (simp add: search_cmp_def parse_row_1 parse_row_2 row_1_def row_2_def no_price)

lemma dedup_key_rows:
  "dedup_key row_1 = js ''A::B::C''" "dedup_key row_2 = js ''A::B::C''"
  by (simp_all add: dedup_key_def row_1_def row_2_def template_def js_def)

lemma mapItem_rows: "mapItem row_1 = Inr (item_of row_1)" "mapItem row_2 = Inr (item_of row_2)"
  by (simp_all add: mapItem_valid parse_row_1 parse_row_2 row_1_def row_2_def)

section \<open>Sessions outside the date window\<close>















section \<open>The claims\<close>

text \<open>
  C9. The text normaliser is idempotent, and insensitive to case and to diacritics: for
  every string \<open>x\<close>, \<open>norm (norm x) = norm x\<close>; and \<open>norm\<close> gives the same result for
  "SMSTS Cafe" (with U+00E9) and for "smsts cafe". The proof of the first part uses of
  \<^verbatim>\<open>toLowerCase\<close> and \<^verbatim>\<open>normalize("NFD")\<close> only that they leave a string over
  \<^verbatim>\<open>[a-z0-9+& ]\<close> as it is.
\<close>

theorem norm_idempotent_example:
  "norm (norm x) = norm x \<and> norm (js ''SMSTS Caf'' @ [233]) = norm (js ''smsts cafe'')"
proof
  show "norm (norm x) = norm x" by (rule norm_normal[OF normal_norm])
  show "norm (js ''SMSTS Caf'' @ [233]) = norm (js ''smsts cafe'')"
    by (simp add: js_def norm_def toLowerCase_def lower_unit_def nfd_def nfd_unit_def
        latin1_decomposition_def is_combining_def norm_keep_def is_digit_def is_space_def trim_def)
qed




text \<open>
  C2, at a failing input: on 15 August 2025, \<^verbatim>\<open>normalizeDateWindow("after 31 january")\<close>
  starts on 1 February 2026 and ends on 31 January 2026; \<open>start \<le> end\<close> does not hold.
\<close>

theorem normalizeDateWindow_after_31_january:
  "normalizeDateWindow (js ''after 31 january'') (N 1755216000000) =
     \<lparr>start = Some (N 1769904000000), end' = Some (N 1769817600000),
      label = js ''after 31 january''\<rparr> \<and>
   \<not> nle (N 1769904000000) (N 1769817600000)"
proof -
  have w: "normalizeDateWindow (js ''after 31 january'') (N 1755216000000) =
     \<lparr>start = Some (utcDate (rollover (N 0) (toUTC00 (N 1755216000000))) (N 0) (N 32)),
      end' = Some (monthEndUTC (rollover (N 0) (toUTC00 (N 1755216000000))) (N 0)),
      label = js ''after 31 january''\<rparr>"
  proof -
    have l: "js ''after'' @ js '' '' @ js ''31'' @ js '' '' @ js ''january'' = js ''after 31 january''"
      by (simp add: js_def)
    show ?thesis
      apply (simp only: normalizeDateWindow_def Let_def js_Nil_iff q_after tests_after
          match_after if_False list.distinct option.case simp_thms)
      apply (simp add: group_def parseInt_opt_def parse_31 show_31 month_january js_eq_iff
          nmap_def l)
      done
  qed
  show ?thesis
    unfolding w by (simp add: now_midnight rollover_january date_2026_01_32 end_2026_01 nle_def)
qed

text \<open>
  C6. For every session name, \<^verbatim>\<open>isCourseMatchByFamily(name, family)\<close> returns
  \<^verbatim>\<open>false\<close> when \<open>family\<close> is the generic placeholder "IOSH" or "EUSR".
\<close>

theorem isCourseMatchByFamily_generic:
  "isCourseMatchByFamily nm (Some (js ''IOSH'')) = Inr (MBool False) \<and>
   isCourseMatchByFamily nm (Some (js ''EUSR'')) = Inr (MBool False)"
  by (simp add: isCourseMatchByFamily_def falsy_def js_Nil_iff)

text \<open>
  C7. For every query whose resolved family is the generic placeholder IOSH or EUSR,
  \<^verbatim>\<open>validateCourseQuery\<close> returns the reason "needs_variant" with \<open>exists = false\<close>,
  \<open>normalizedFamily = null\<close>, and exactly the two concrete variants as suggestions; and
  \<^verbatim>\<open>validateCourseQuery("iosh")\<close> suggests "IOSH Managing Safely" and
  "IOSH Working Safely".
\<close>

theorem validateCourseQuery_needs_variant:
  "(family (expandKeywords t) = Some (js ''IOSH'') \<longrightarrow>
      validateCourseQuery t =
        \<lparr>recognizedFamily = Some (js ''IOSH''), refresherRequested = refresher (expandKeywords t),
         exists = False, normalizedFamily = None, reason = js ''needs_variant'',
         suggestions = [js ''IOSH Managing Safely'', js ''IOSH Working Safely'']\<rparr>) \<and>
   (family (expandKeywords t) = Some (js ''EUSR'') \<longrightarrow>
      validateCourseQuery t =
        \<lparr>recognizedFamily = Some (js ''EUSR''), refresherRequested = refresher (expandKeywords t),
         exists = False, normalizedFamily = None, reason = js ''needs_variant'',
         suggestions = [js ''EUSR Water Hygiene AM'', js ''EUSR Water Hygiene PM'']\<rparr>) \<and>
   validateCourseQuery (js ''iosh'') =
     \<lparr>recognizedFamily = Some (js ''IOSH''), refresherRequested = None,
      exists = False, normalizedFamily = None, reason = js ''needs_variant'',
      suggestions = [js ''IOSH Managing Safely'', js ''IOSH Working Safely'']\<rparr>"
  by (simp add: validateCourseQuery_def Let_def falsy_def js_Nil_iff js_eq_iff expandKeywords_iosh)

theorem validateCourseQuery_needs_variant_witness:
  "family (expandKeywords (js ''iosh'')) = Some (js ''IOSH'') \<and>
   reason (validateCourseQuery (js ''iosh'')) = js ''needs_variant'' \<and>
   family (expandKeywords (js ''eusr'')) = Some (js ''EUSR'') \<and>
   suggestions (validateCourseQuery (js ''eusr'')) =
     [js ''EUSR Water Hygiene AM'', js ''EUSR Water Hygiene PM'']"
  using validateCourseQuery_needs_variant[of "js ''iosh''"]
    validateCourseQuery_needs_variant[of "js ''eusr''"]
  by (simp add: expandKeywords_iosh expandKeywords_eusr)

text \<open>
  C8. For every query that asks for a refresher and resolves to a concrete family with no
  refresher entry, \<^verbatim>\<open>validateCourseQuery\<close> returns the reason "variant_not_offered"
  with \<open>exists = false\<close>; its suggestions are the family marked "(Standard)" and then,
  as their Refresher variants, the first two of the three refresher-capable families
  "SMSTS", "SSSTS", "TWC" in the stable order of their edit distance to the family, both
  names normalised. And \<^verbatim>\<open>validateCourseQuery("tws refresher")\<close> has the reason
  "variant_not_offered" and suggests "TWS (Standard)", "TWC Refresher" and
  "SMSTS Refresher".
\<close>

theorem validateCourseQuery_variant_not_offered:
  "(family (expandKeywords t) = Some fam \<and> fam \<noteq> js ''IOSH'' \<and> fam \<noteq> js ''EUSR'' \<and>
    refresher (expandKeywords t) = Some True \<and> fam \<notin> set REFRESHER_AVAILABLE \<longrightarrow>
    (\<exists>a b c.
       sort_key (\<lambda>f. edit_distance (norm f) (norm fam)) REFRESHER_AVAILABLE = [a, b, c] \<and>
       mset [a, b, c] = mset REFRESHER_AVAILABLE \<and>
       edit_distance (norm a) (norm fam) \<le> edit_distance (norm b) (norm fam) \<and>
       edit_distance (norm b) (norm fam) \<le> edit_distance (norm c) (norm fam) \<and>
       validateCourseQuery t =
         \<lparr>recognizedFamily = Some fam, refresherRequested = Some True, exists = False,
          normalizedFamily = None, reason = js ''variant_not_offered'',
          suggestions =
            [fam @ js '' (Standard)'', a @ js '' Refresher'', b @ js '' Refresher'']\<rparr>)) \<and>
   REFRESHER_AVAILABLE = [js ''SMSTS'', js ''SSSTS'', js ''TWC''] \<and>
   validateCourseQuery (js ''tws refresher'') =
     \<lparr>recognizedFamily = Some (js ''TWS''), refresherRequested = Some True, exists = False,
      normalizedFamily = None, reason = js ''variant_not_offered'',
      suggestions = [js ''TWS (Standard)'', js ''TWC Refresher'', js ''SMSTS Refresher'']\<rparr>"
proof (intro conjI impI)
  assume h: "family (expandKeywords t) = Some fam \<and> fam \<noteq> js ''IOSH'' \<and> fam \<noteq> js ''EUSR'' \<and>
    refresher (expandKeywords t) = Some True \<and> fam \<notin> set REFRESHER_AVAILABLE"
  let ?d = "\<lambda>f. edit_distance (norm f) (norm fam)"
  have ne: "fam \<noteq> []" using h family_expandKeywords_nonempty[of t] by auto
  have "length REFRESHER_AVAILABLE = 3" by (simp add: REFRESHER_AVAILABLE_eq)
  from sorted_three[OF this, of ?d] obtain a b c where
    s: "sort_key ?d REFRESHER_AVAILABLE = [a, b, c]"
    and m: "mset [a, b, c] = mset REFRESHER_AVAILABLE"
    and o: "?d a \<le> ?d b" "?d b \<le> ?d c" by blast
  have "js_sort (\<lambda>a b. of_nat (snd a) - of_nat (snd b))
          (map (\<lambda>f. (f, levenshtein f fam)) REFRESHER_AVAILABLE) =
        map (\<lambda>f. (f, levenshtein f fam)) [a, b, c]"
    by (simp only: js_sort_sort_key[of snd] sort_key_map snd_conv levenshtein_edit_distance s)
  then have v: "validateCourseQuery t =
      \<lparr>recognizedFamily = Some fam, refresherRequested = Some True, exists = False,
       normalizedFamily = None, reason = js ''variant_not_offered'',
       suggestions =
         [fam @ js '' (Standard)'', a @ js '' Refresher'', b @ js '' Refresher'']\<rparr>"
    using h ne by (simp add: validateCourseQuery_def Let_def falsy_def)
  from s m o v show "\<exists>a b c.
       sort_key ?d REFRESHER_AVAILABLE = [a, b, c] \<and>
       mset [a, b, c] = mset REFRESHER_AVAILABLE \<and>
       ?d a \<le> ?d b \<and> ?d b \<le> ?d c \<and>
       validateCourseQuery t =
         \<lparr>recognizedFamily = Some fam, refresherRequested = Some True, exists = False,
          normalizedFamily = None, reason = js ''variant_not_offered'',
          suggestions =
            [fam @ js '' (Standard)'', a @ js '' Refresher'', b @ js '' Refresher'']\<rparr>"
    by blast
next
  show "REFRESHER_AVAILABLE = [js ''SMSTS'', js ''SSSTS'', js ''TWC'']"
    by (rule REFRESHER_AVAILABLE_eq)
next
  have l: "levenshtein (js ''SMSTS'') (js ''TWS'') = 4"
    "levenshtein (js ''SSSTS'') (js ''TWS'') = 4"
    "levenshtein (js ''TWC'') (js ''TWS'') = 1"
    by (simp_all only: levenshtein_edit_distance norm_refresher_families edit_distance_tws)
  show "validateCourseQuery (js ''tws refresher'') =
     \<lparr>recognizedFamily = Some (js ''TWS''), refresherRequested = Some True, exists = False,
      normalizedFamily = None, reason = js ''variant_not_offered'',
      suggestions = [js ''TWS (Standard)'', js ''TWC Refresher'', js ''SMSTS Refresher'']\<rparr>"
    by (simp add: validateCourseQuery_def Let_def falsy_def expandKeywords_tws_refresher
        REFRESHER_AVAILABLE_eq js_eq_iff js_Nil_iff l js_sort_def js_append)
qed

theorem validateCourseQuery_variant_not_offered_witness:
  "family (expandKeywords (js ''tws refresher'')) = Some (js ''TWS'') \<and>
   refresher (expandKeywords (js ''tws refresher'')) = Some True \<and>
   js ''TWS'' \<notin> set REFRESHER_AVAILABLE \<and>
   sort_key (\<lambda>f. edit_distance (norm f) (norm (js ''TWS''))) REFRESHER_AVAILABLE =
     [js ''TWC'', js ''SMSTS'', js ''SSSTS''] \<and>
   edit_distance (norm (js ''TWC'')) (norm (js ''TWS'')) = 1 \<and>
   edit_distance (norm (js ''SMSTS'')) (norm (js ''TWS'')) = 4 \<and>
   edit_distance (norm (js ''SSSTS'')) (norm (js ''TWS'')) = 4 \<and>
   suggestions (validateCourseQuery (js ''tws refresher'')) =
     [js ''TWS'' @ js '' (Standard)'', js ''TWC'' @ js '' Refresher'',
      js ''SMSTS'' @ js '' Refresher'']"
proof -
  have h: "family (expandKeywords (js ''tws refresher'')) = Some (js ''TWS'') \<and>
      js ''TWS'' \<noteq> js ''IOSH'' \<and> js ''TWS'' \<noteq> js ''EUSR'' \<and>
      refresher (expandKeywords (js ''tws refresher'')) = Some True \<and>
      js ''TWS'' \<notin> set REFRESHER_AVAILABLE"
    by (simp add: expandKeywords_tws_refresher REFRESHER_AVAILABLE_eq js_eq_iff)
  have s: "sort_key (\<lambda>f. edit_distance (norm f) (norm (js ''TWS''))) REFRESHER_AVAILABLE =
      [js ''TWC'', js ''SMSTS'', js ''SSSTS'']"
    by (simp add: REFRESHER_AVAILABLE_eq norm_refresher_families edit_distance_tws)
  from h validateCourseQuery_variant_not_offered[of "js ''tws refresher''" "js ''TWS''"]
  obtain a b c where
    "sort_key (\<lambda>f. edit_distance (norm f) (norm (js ''TWS''))) REFRESHER_AVAILABLE = [a, b, c]"
    "validateCourseQuery (js ''tws refresher'') =
       \<lparr>recognizedFamily = Some (js ''TWS''), refresherRequested = Some True, exists = False,
        normalizedFamily = None, reason = js ''variant_not_offered'',
        suggestions =
          [js ''TWS'' @ js '' (Standard)'', a @ js '' Refresher'', b @ js '' Refresher'']\<rparr>"
    by blast
  with s have "suggestions (validateCourseQuery (js ''tws refresher'')) =
     [js ''TWS'' @ js '' (Standard)'', js ''TWC'' @ js '' Refresher'',
      js ''SMSTS'' @ js '' Refresher'']"
    by simp
  with h s show ?thesis
    by (simp add: norm_refresher_families edit_distance_tws)
qed

text \<open>
  C10, at a failing input: the family "hasOwnProperty" is not "IOSH", not "EUSR" and no
  key of \<^verbatim>\<open>checks\<close>, and \<^verbatim>\<open>isCourseMatchByFamily(name, "hasOwnProperty")\<close> returns
  \<^verbatim>\<open>false\<close> for every name: \<^verbatim>\<open>checks["hasOwnProperty"]\<close> is the method inherited
  from \<^verbatim>\<open>Object.prototype\<close>, and the fallback \<^verbatim>\<open>?? true\<close> is not reached. The call
  returns \<^verbatim>\<open>true\<close> when the family is \<^verbatim>\<open>null\<close>, and, for a family other than
  "IOSH" and "EUSR" that is no key of \<^verbatim>\<open>checks\<close>, exactly when the family is none of
  the ten names of \<open>shadowing_names\<close>.
\<close>

theorem isCourseMatchByFamily_inherited:
  "js ''hasOwnProperty'' \<noteq> js ''IOSH'' \<and> js ''hasOwnProperty'' \<noteq> js ''EUSR'' \<and>
   js ''hasOwnProperty'' \<notin> set checks_keys \<and>
   isCourseMatchByFamily nm (Some (js ''hasOwnProperty'')) = Inr (MBool False) \<and>
   isCourseMatchByFamily nm None = Inr (MBool True) \<and>
   (fam \<noteq> js ''IOSH'' \<and> fam \<noteq> js ''EUSR'' \<and> fam \<notin> set checks_keys \<longrightarrow>
      (isCourseMatchByFamily nm (Some fam) = Inr (MBool True)) = (fam \<notin> set shadowing_names))"
proof (intro conjI impI)
  show k: "js ''hasOwnProperty'' \<notin> set checks_keys"
    by (simp add: checks_keys_def checks_def js_eq_iff)
  have c: "call_inherited (js ''hasOwnProperty'') = Inr (Some (MBool False))"
    by (simp add: call_inherited_def js_eq_iff)
  show "isCourseMatchByFamily nm (Some (js ''hasOwnProperty'')) = Inr (MBool False)"
    using k by (simp add: isCourseMatchByFamily_def falsy_def js_Nil_iff js_eq_iff
        map_of_checks_None c)
  show "isCourseMatchByFamily nm None = Inr (MBool True)"
    by (simp add: isCourseMatchByFamily_def falsy_def)
next
  assume h: "fam \<noteq> js ''IOSH'' \<and> fam \<noteq> js ''EUSR'' \<and> fam \<notin> set checks_keys"
  then have m: "map_of (checks (toLowerCase nm)) fam = None"
    by (simp add: map_of_checks_None)
  show "(isCourseMatchByFamily nm (Some fam) = Inr (MBool True)) = (fam \<notin> set shadowing_names)"
  proof (cases "fam = []")
    case True
    then show ?thesis
      by (simp add: isCourseMatchByFamily_def falsy_def shadowing_names_def js_def)
  next
    case False
    have "(isCourseMatchByFamily nm (Some fam) = Inr (MBool True)) = (call_inherited fam = Inr None)"
      using h False call_inherited_True[of fam]
      by (auto simp: isCourseMatchByFamily_def falsy_def Let_def m
          split: sum.splits option.splits)
    then show ?thesis by (simp add: call_inherited_None)
  qed
qed (simp_all add: js_eq_iff)

theorem isCourseMatchByFamily_inherited_witness:
  "js ''CSCS'' \<noteq> js ''IOSH'' \<and> js ''CSCS'' \<noteq> js ''EUSR'' \<and> js ''CSCS'' \<notin> set checks_keys \<and>
   js ''CSCS'' \<notin> set shadowing_names \<and>
   isCourseMatchByFamily (js ''SMSTS | Stratford'') (Some (js ''CSCS'')) = Inr (MBool True) \<and>
   js ''__lookupGetter__'' \<notin> set checks_keys \<and> js ''__lookupGetter__'' \<notin> set shadowing_names \<and>
   isCourseMatchByFamily (js ''SMSTS | Stratford'') (Some (js ''__lookupGetter__'')) = Inr (MBool True) \<and>
   js ''toString'' \<notin> set checks_keys \<and> js ''toString'' \<in> set shadowing_names \<and>
   isCourseMatchByFamily (js ''SMSTS | Stratford'') (Some (js ''toString'')) \<noteq> Inr (MBool True)"
proof -
  have h: "js ''CSCS'' \<noteq> js ''IOSH'' \<and> js ''CSCS'' \<noteq> js ''EUSR'' \<and>
      js ''CSCS'' \<notin> set checks_keys \<and> js ''CSCS'' \<notin> set shadowing_names"
    "js ''__lookupGetter__'' \<noteq> js ''IOSH'' \<and> js ''__lookupGetter__'' \<noteq> js ''EUSR'' \<and>
      js ''__lookupGetter__'' \<notin> set checks_keys \<and> js ''__lookupGetter__'' \<notin> set shadowing_names"
    "js ''toString'' \<noteq> js ''IOSH'' \<and> js ''toString'' \<noteq> js ''EUSR'' \<and>
      js ''toString'' \<notin> set checks_keys \<and> js ''toString'' \<in> set shadowing_names"
    by (simp_all add: checks_keys_def checks_def shadowing_names_def js_eq_iff)
  with isCourseMatchByFamily_inherited[of "js ''SMSTS | Stratford''" "js ''CSCS''"]
    isCourseMatchByFamily_inherited[of "js ''SMSTS | Stratford''" "js ''__lookupGetter__''"]
    isCourseMatchByFamily_inherited[of "js ''SMSTS | Stratford''" "js ''toString''"]
  show ?thesis by blast
qed

text \<open>
  C3, as stated: two calls of \<^verbatim>\<open>diagnoseSearch\<close> with the same catalogue and the same
  parameters return the same value. \<^verbatim>\<open>diagnoseSearch\<close> reads the clock
  (\<^verbatim>\<open>todayUTC()\<close>), which is no parameter of it: on 15 August 2025 and on
  25 August 2025 it returns different values for the catalogue and the query of the
  example.
\<close>

theorem diagnoseSearch_clock_counterexample:
  "diagnoseSearch (N 1755216000000) [hsa_session] hsa_query \<noteq>
   diagnoseSearch (N 1756080000000) [hsa_session] hsa_query"
  by (simp add: diagnose_hsa hsa_future_15 hsa_past_25)

text \<open>
  C3, amended: the value of \<^verbatim>\<open>diagnoseSearch\<close> is a function of the catalogue, the
  parameters and the UTC day of the clock at the call. Two calls with the same catalogue
  and parameters agree on whether they throw and on every field but
  \<open>nearestInLocation\<close> and \<open>nearestAnywhere\<close>, and two calls on the same UTC day return
  the same value. \<^verbatim>\<open>searchCoursesInMemory\<close> reads no clock: its model is a function of
  the catalogue and the parameters alone.
\<close>

theorem diagnoseSearch_clock:
  "map_sum id clock_free (diagnoseSearch c1 products ps) =
     map_sum id clock_free (diagnoseSearch c2 products ps) \<and>
   (toUTC00 c1 = toUTC00 c2 \<longrightarrow>
      diagnoseSearch c1 products ps = diagnoseSearch c2 products ps)"
proof
  show "map_sum id clock_free (diagnoseSearch c1 products ps) =
     map_sum id clock_free (diagnoseSearch c2 products ps)"
    unfolding diagnoseSearch_normal_form
    by (simp add: bindE_def clock_free_def split: sum.splits)
  show "toUTC00 c1 = toUTC00 c2 \<longrightarrow>
      diagnoseSearch c1 products ps = diagnoseSearch c2 products ps"
    by (simp add: diagnoseSearch_def)
qed

theorem diagnoseSearch_clock_witness:
  "toUTC00 (N 1755216000000) = toUTC00 (N 1755252000001) \<and>
   diagnoseSearch (N 1755216000000) [hsa_session] hsa_query =
     diagnoseSearch (N 1755252000001) [hsa_session] hsa_query \<and>
   map_sum id nearestAnywhere (diagnoseSearch (N 1755216000000) [hsa_session] hsa_query) =
     Inr [item_of hsa_session]"
  using diagnoseSearch_clock[of "N 1755216000000" "[hsa_session]" hsa_query "N 1755252000001"]
  by (simp add: diagnose_hsa hsa_future_15 same_day[symmetric])

text \<open>
  C4, at a failing input: the rows \<open>row_1\<close> (name "A::B", start date "C") and \<open>row_2\<close>
  (name "A", start date "B::C") differ in name and in start date, and each is returned
  by a search with no filter; searched together, the second is dropped as a duplicate
  of the first, because the key \<^verbatim>\<open>`${r.name}::${r.start_date}`\<close> is "A::B::C" for both.
\<close>

theorem searchCoursesInMemory_key_collision:
  "(name row_1, start_date row_1) \<noteq> (name row_2, start_date row_2) \<and>
   dedup_key row_1 = dedup_key row_2 \<and>
   searchCoursesInMemory [row_1] no_filter = Inr [item_of row_1] \<and>
   searchCoursesInMemory [row_2] no_filter = Inr [item_of row_2] \<and>
   searchCoursesInMemory [row_1, row_2] no_filter = Inr [item_of row_1]"
proof -
  have "(name row_1, start_date row_1) \<noteq> (name row_2, start_date row_2)"
    by (simp add: row_1_def row_2_def js_eq_iff)
  then show ?thesis
    by (simp add: search_no_filter js_sort_def search_cmp_rows dedup_key_rows mapItem_rows)
qed

theorem searchCoursesInMemory_key_collision_witness:
  "map_sum id (map title) (searchCoursesInMemory [row_1] no_filter) = Inr [Str (js ''A::B'')] \<and>
   map_sum id (map title) (searchCoursesInMemory [row_2] no_filter) = Inr [Str (js ''A'')] \<and>
   map_sum id (map title) (searchCoursesInMemory [row_1, row_2] no_filter) =
     Inr [Str (js ''A::B'')]"
  using searchCoursesInMemory_key_collision
  by (simp add: item_of_def make_item_def row_1_def row_2_def)




end
